theory Spec2Isabelle
  imports Complex_Main "HOL-Library.Word" "HOL-Library.Signed_Division"
begin

section \<open>Movie playback sessions on the ffmpeg backend (avi\_ffmpeg.c)\<close>

text \<open>
  The C integers of the source (\<open>int\<close>, \<open>int64_t\<close>) are modelled as \<open>int\<close>: signed
  overflow is undefined in C, so every statement below is about runs whose intermediate
  values fit their C type. Division is C's truncating division (\<open>sdiv\<close>).
  Floating-point values (\<open>float\<close>, \<open>double\<close>) are modelled as reals, which the
  rounded results of the source only approximate; no statement below is about a value
  computed in floating point.
  Console output (\<open>Con_Printf\<close>, \<open>AVI_SpewError\<close>, \<open>AVI_SpewAvError\<close>) changes no
  session state and returns nothing, so it is not represented.
\<close>

subsection \<open>Objects of the media library\<close>

type_synonym byte = "8 word"

text \<open>A region of memory (the caller's buffer, the audio cache, the picture) is a function
  from byte index to byte; pointers into it are indices.\<close>

type_synonym mem = "nat \<Rightarrow> byte"

text \<open>\<open>AVPacket\<close>: the fields the source reads, and the compressed payload.\<close>

record packet =
  stream_index :: int
  dts :: int
  payload :: "byte list"

text \<open>\<open>INT64_MIN\<close>, used by the source for its timestamps; a packet that was
  unreferenced carries no payload and no timestamp.\<close>

definition INT64_MIN :: int where
  "INT64_MIN = - (2 ^ 63)"

definition INT_MAX :: int where
  "INT_MAX = 2 ^ 31 - 1"

definition blank_packet :: packet where
  "blank_packet = \<lparr>stream_index = 0, dts = INT64_MIN, payload = []\<rparr>"

text \<open>\<open>AVFrame\<close>: the fields the source reads, and the decoded data.\<close>

record frame =
  width :: int
  height :: int
  format :: int
  nb_samples :: int
  raw :: "byte list"

definition blank_frame :: frame where
  "blank_frame = \<lparr>width = 0, height = 0, format = - 1, nb_samples = 0, raw = []\<rparr>"

text \<open>
  \<open>AVFormatContext\<close>: the container is a finite sequence of packets, of which
  \<open>upcoming\<close> are still to be read; \<open>av_read_frame\<close> hands out the head of \<open>upcoming\<close>
  and reports end of file on the empty list. \<open>time_base\<close> gives each stream's time base
  as numerator and denominator, \<open>ctx_duration\<close> is the container's duration field.
\<close>

record demux =
  container :: "packet list"
  upcoming :: "packet list"
  time_base :: "int \<Rightarrow> int \<times> int"
  ctx_duration :: int

datatype media_type = AVMEDIA_TYPE_VIDEO | AVMEDIA_TYPE_AUDIO

text \<open>
  The media library itself is not part of the repository: its answers are parameters.
  A codec context is a value of an arbitrary type \<open>'c\<close> that the library's functions
  transform, so that decoders with internal state are covered. The error codes are the
  library's constants; \<open>MAX_RAW_SAMPLES\<close> and \<open>Q_rint\<close> come from engine headers
  outside the two source files. The two \<open>q2d\<close> fields stand for the floating-point
  branches of the two timestamp conversions.
\<close>

record 'c avlib =
  AVERROR_EOF :: int
  AVERROR_EAGAIN :: int
  AVERROR_EINVAL :: int
  AVERROR_ENOMEM :: int
  MAX_RAW_SAMPLES :: int
  AV_TIME_BASE :: int
  AV_PIX_FMT_BGRA :: int
  AV_SAMPLE_FMT_S16 :: int
  Q_rint :: "real \<Rightarrow> int"
  avformat_open_input :: "string \<Rightarrow> int \<times> demux"
  avformat_find_stream_info :: "demux \<Rightarrow> int \<times> demux"
  av_find_best_stream :: "demux \<Rightarrow> media_type \<Rightarrow> int"
  avcodec_find_decoder :: "demux \<Rightarrow> int \<Rightarrow> bool"
  avcodec_alloc_context3 :: "demux \<Rightarrow> int \<Rightarrow> 'c option"
  avcodec_parameters_to_context :: "'c \<Rightarrow> demux \<Rightarrow> int \<Rightarrow> int \<times> 'c"
  avcodec_open2 :: "'c \<Rightarrow> int \<times> 'c"
  ctx_width :: "'c \<Rightarrow> int"
  ctx_height :: "'c \<Rightarrow> int"
  ctx_pix_fmt :: "'c \<Rightarrow> int"
  av_packet_alloc :: "nat \<Rightarrow> bool"
  av_frame_alloc :: bool
  sws_getContext :: "int \<Rightarrow> int \<Rightarrow> int \<Rightarrow> bool"
  av_image_alloc :: "int \<Rightarrow> int \<Rightarrow> int \<times> nat"
  Mem_Malloc :: "int \<Rightarrow> mem"
  avformat_seek_file :: "demux \<Rightarrow> int \<Rightarrow> int \<Rightarrow> int \<Rightarrow> int \<times> demux"
  avcodec_send_packet :: "'c \<Rightarrow> packet \<Rightarrow> int \<times> 'c"
  avcodec_receive_frame :: "'c \<Rightarrow> int \<times> frame \<times> 'c"
  avcodec_flush_buffers :: "'c \<Rightarrow> 'c"
  sws_scale :: "frame \<Rightarrow> mem"
  swr_convert :: "frame \<Rightarrow> mem"
  av_get_bytes_per_sample :: "int \<Rightarrow> int"
  q2d_offset_to_ts :: "int \<Rightarrow> int \<Rightarrow> int \<Rightarrow> int \<times> int \<Rightarrow> int"
  q2d_ts_to_offset :: "int \<Rightarrow> int \<Rightarrow> int \<Rightarrow> int \<times> int \<Rightarrow> int"

subsection \<open>The session\<close>

text \<open>
  \<open>struct movie_state_s\<close>. A handle of the struct is modelled by the library object it
  refers to (for the converter and the resampler, by whether it was allocated); that a
  handle may be null is not represented, and the retrieval functions, which dereference
  their handles without a test, are modelled on sessions whose handles are set. The
  pointer that callers see is kept as an address, with \<open>NULL\<close> the address 0: \<open>dst0\<close>
  is \<open>dst[0]\<close>, and \<open>dst_image\<close> the picture it points to. The cache block
  \<open>cached_audio\<close> is its contents together with \<open>cached_audio_alloc\<close>, the size the
  allocator gave the block.
\<close>

definition NULL :: nat where
  "NULL = 0"

record 'c movie_state =
  active :: bool
  quiet :: bool
  fmt_ctx :: demux
  video_ctx :: 'c
  audio_ctx :: 'c
  sws_ctx :: bool
  swr_ctx :: bool
  frame :: frame
  pkt :: packet
  pkt_seek :: packet
  video_stream :: int
  xres :: int
  yres :: int
  duration :: real
  pix_fmt :: int
  audio_stream :: int
  channels :: int
  rate :: int
  s_fmt :: int
  dst0 :: nat
  dst_image :: mem
  keyframe_ts :: int
  currentframe_ts :: int
  cached_audio_buf_len :: int
  cached_audio_len :: int
  cached_audio_off :: int
  audio_eof_position :: int
  have_audio_cache :: bool
  cached_audio :: mem
  cached_audio_alloc :: int

subsection \<open>Reading packets\<close>

definition av_q2d :: "int \<times> int \<Rightarrow> real" where
  "av_q2d q = real_of_int (fst q) / real_of_int (snd q)"

subsection \<open>AVI\_DecodePacket\<close>

text \<open>Returns the code, the codec context and what the frame holder now contains.\<close>

definition AVI_DecodePacket ::
  "'c avlib \<Rightarrow> 'c \<Rightarrow> packet \<Rightarrow> frame \<Rightarrow> int \<times> 'c \<times> frame" where
  "AVI_DecodePacket env ctx p f =
     (case avcodec_send_packet env ctx p of (ret, ctx1) \<Rightarrow>
        if ret < 0 then (ret, ctx1, f)
        else (case avcodec_receive_frame env ctx1 of (ret2, f2, ctx2) \<Rightarrow>
          if ret2 < 0 then (ret2, ctx2, f2) else (0, ctx2, f2)))"

subsection \<open>AVI\_SeekAudio\<close>

text \<open>
  The \<open>while\<close> loop of \<open>AVI_SeekAudio\<close> over the packets still to be read. The
  arguments \<open>valid\<close> and \<open>cur\<close> are the flag and the session's current packet so far; the
  result also gives the packets left unread. A packet of the audio stream later than
  \<open>ts\<close> is consumed and ends the loop.
\<close>

fun seek_audio_loop ::
  "int \<Rightarrow> int \<Rightarrow> packet list \<Rightarrow> bool \<Rightarrow> packet \<Rightarrow> bool \<times> packet \<times> packet list" where
  "seek_audio_loop a ts [] valid cur = (valid, cur, [])"
| "seek_audio_loop a ts (p # ps) valid cur =
     (if stream_index p \<noteq> a then seek_audio_loop a ts ps valid cur
      else if dts p > ts then (valid, cur, ps)
      else seek_audio_loop a ts ps True p)"

text \<open>The library's flag value; the source only hands it to \<open>avformat_seek_file\<close>.\<close>

definition AVSEEK_FLAG_ANY :: int where
  "AVSEEK_FLAG_ANY = 4"

definition AVI_SeekAudio ::
  "'c avlib \<Rightarrow> 'c movie_state \<Rightarrow> int \<Rightarrow> int \<times> 'c movie_state" where
  "AVI_SeekAudio env s ts =
     (case avformat_seek_file env (fmt_ctx s) (audio_stream s) ts AVSEEK_FLAG_ANY of
        (ret, d) \<Rightarrow>
          if ret < 0 \<and> ret = AVERROR_EOF env
          then (AVERROR_EOF env, s\<lparr>fmt_ctx := d\<rparr>)
          else (case seek_audio_loop (audio_stream s) ts (upcoming d) False (pkt s) of
                  (valid, cur, rest) \<Rightarrow>
                    let s' = s\<lparr>fmt_ctx := d\<lparr>upcoming := rest\<rparr>, pkt := cur,
                               pkt_seek := blank_packet\<rparr>
                    in if \<not> valid then (AVERROR_EOF env, s') else (0, s')))"

subsection \<open>AVI\_SeekVideo\<close>

text \<open>The first packet of stream \<open>v\<close> among the packets still to be read.\<close>

fun next_of_stream :: "int \<Rightarrow> packet list \<Rightarrow> (packet \<times> packet list) option" where
  "next_of_stream v [] = None"
| "next_of_stream v (p # ps) =
     (if stream_index p \<noteq> v then next_of_stream v ps else Some (p, ps))"

definition AVI_SeekVideo ::
  "'c avlib \<Rightarrow> 'c movie_state \<Rightarrow> int \<Rightarrow> int \<times> 'c movie_state" where
  "AVI_SeekVideo env s ts =
     (case avformat_seek_file env (fmt_ctx s) (video_stream s) ts 0 of
        (ret, d) \<Rightarrow>
          if ret < 0 \<and> ret = AVERROR_EOF env
          then (AVERROR_EOF env, s\<lparr>fmt_ctx := d\<rparr>)
          else (case next_of_stream (video_stream s) (upcoming d) of
                  None \<Rightarrow>
                    (AVERROR_EOF env,
                     s\<lparr>fmt_ctx := d\<lparr>upcoming := []\<rparr>, pkt_seek := blank_packet\<rparr>)
                | Some (p, rest) \<Rightarrow>
                    let s1 = s\<lparr>fmt_ctx := d\<lparr>upcoming := rest\<rparr>\<rparr> in
                    if keyframe_ts s1 \<noteq> dts p
                    then (AVERROR_EAGAIN env,
                          s1\<lparr>keyframe_ts := dts p, pkt := p, pkt_seek := blank_packet\<rparr>)
                    else (0, s1\<lparr>pkt := p, pkt_seek := blank_packet\<rparr>)))"

subsection \<open>AVI\_GetVideoFrame\<close>

text \<open>
  The inner loop of \<open>AVI_GetVideoFrame\<close>: read on, skipping other streams and the
  packets not later than the last decoded one. The result is the flag \<open>valid\<close>, the
  session's packet and the packets left unread.
\<close>

fun skip_decoded :: "int \<Rightarrow> int \<Rightarrow> packet list \<Rightarrow> bool \<times> packet \<times> packet list" where
  "skip_decoded v cur [] = (False, blank_packet, [])"
| "skip_decoded v cur (p # ps) =
     (if stream_index p \<noteq> v then skip_decoded v cur ps
      else if dts p \<le> cur then skip_decoded v cur ps
      else (True, p, ps))"

text \<open>
  The first half of \<open>AVI_GetVideoFrame\<close>, up to the test of \<open>valid\<close>: seek, then
  either continue in the current keyframe run or flush the decoder.
\<close>

definition video_select ::
  "'c avlib \<Rightarrow> 'c movie_state \<Rightarrow> int \<Rightarrow> bool \<times> 'c movie_state" where
  "video_select env s target =
     (case AVI_SeekVideo env s target of (ret, s1) \<Rightarrow>
        if ret = 0 then
          (if dts (pkt s1) < target then
             (case skip_decoded (video_stream s1) (currentframe_ts s1)
                     (upcoming (fmt_ctx s1)) of
                (valid, p, rest) \<Rightarrow>
                  (valid, s1\<lparr>fmt_ctx := (fmt_ctx s1)\<lparr>upcoming := rest\<rparr>, pkt := p\<rparr>))
           else (True, s1))
        else if ret = AVERROR_EAGAIN env then
          (True, s1\<lparr>video_ctx := avcodec_flush_buffers env (video_ctx s1)\<rparr>)
        else (False, s1))"

text \<open>The second half: decode the chosen packet and convert the picture.\<close>

definition video_decode ::
  "'c avlib \<Rightarrow> 'c movie_state \<Rightarrow> nat \<times> 'c movie_state" where
  "video_decode env s2 =
     (let s3 = s2\<lparr>currentframe_ts := dts (pkt s2)\<rparr> in
      case AVI_DecodePacket env (video_ctx s3) (pkt s3) (frame s3) of (r, ctx, f) \<Rightarrow>
        if r < 0
        then (dst0 s3, s3\<lparr>video_ctx := ctx, frame := f, pkt := blank_packet\<rparr>)
        else
          let s4 = s3\<lparr>video_ctx := ctx, frame := f, pkt := blank_packet\<rparr> in
          if width f \<noteq> xres s4 \<or> height f \<noteq> yres s4 \<or> format f \<noteq> pix_fmt s4
          then (dst0 s4, s4\<lparr>frame := blank_frame\<rparr>)
          else (dst0 s4, s4\<lparr>dst_image := sws_scale env f, frame := blank_frame\<rparr>))"

definition AVI_GetVideoFrame ::
  "'c avlib \<Rightarrow> 'c movie_state \<Rightarrow> int \<Rightarrow> nat \<times> 'c movie_state" where
  "AVI_GetVideoFrame env s target =
     (if \<not> active s then (NULL, s)
      else case video_select env s target of (valid, s2) \<Rightarrow>
        if \<not> valid then (dst0 s2, s2) else video_decode env s2)"

subsection \<open>Query accessors\<close>

definition AVI_GetFrameNumber :: "'c avlib \<Rightarrow> 'c movie_state \<Rightarrow> int \<Rightarrow> real \<Rightarrow> int" where
  "AVI_GetFrameNumber env s stream_idx time =
     (if \<not> active s then 0
      else Q_rint env (time / av_q2d (time_base (fmt_ctx s) stream_idx)))"

definition AVI_GetVideoFrameNumber :: "'c avlib \<Rightarrow> 'c movie_state \<Rightarrow> real \<Rightarrow> int" where
  "AVI_GetVideoFrameNumber env s time = AVI_GetFrameNumber env s (video_stream s) time"

definition AVI_TimeToSoundPosition :: "'c avlib \<Rightarrow> 'c movie_state \<Rightarrow> int \<Rightarrow> int" where
  "AVI_TimeToSoundPosition env s time =
     AVI_GetFrameNumber env s (audio_stream s) (real_of_int time / 1000)"

text \<open>
  An output parameter is a pointer that may be \<open>NULL\<close>: \<open>None\<close> is the null pointer,
  \<open>Some v\<close> a cell that holds \<open>v\<close>. The function returns its result and the cells.
\<close>

definition AVI_GetVideoInfo ::
  "'c movie_state \<Rightarrow> int option \<Rightarrow> int option \<Rightarrow> real option
     \<Rightarrow> bool \<times> int option \<times> int option \<times> real option" where
  "AVI_GetVideoInfo s xres_p yres_p duration_p =
     (if \<not> active s then (False, xres_p, yres_p, duration_p)
      else (True,
            (if xres_p \<noteq> None then Some (xres s) else xres_p),
            (if yres_p \<noteq> None then Some (yres s) else yres_p),
            (if duration_p \<noteq> None then Some (duration s) else duration_p)))"

text \<open>The fields of \<open>wavdata_t\<close> that the source writes.\<close>

record wavdata =
  wav_rate :: int
  wav_channels :: int
  wav_width :: int
  wav_size :: int
  wav_loopStart :: int

definition AVI_GetAudioInfo ::
  "'c avlib \<Rightarrow> 'c movie_state \<Rightarrow> wavdata \<Rightarrow> bool \<times> wavdata" where
  "AVI_GetAudioInfo env s snd_info =
     (if \<not> active s \<or> audio_stream s < 0 then (False, snd_info)
      else
        let i1 = snd_info\<lparr>wav_rate := rate s\<rparr>;
            i2 = i1\<lparr>wav_channels := channels s\<rparr>;
            i3 = i2\<lparr>wav_width := av_get_bytes_per_sample env (s_fmt s)\<rparr>;
            i4 = i3\<lparr>wav_size := wav_rate i3 * wav_width i3 * wav_channels i3\<rparr>
        in (True, i4\<lparr>wav_loopStart := 0\<rparr>))"

subsection \<open>AVI\_GetAudioChunkFromCache\<close>

text \<open>
  \<open>memcpy dst d src s n\<close>: the region \<open>dst\<close> after \<open>n\<close> bytes of \<open>src\<close> from index
  \<open>s\<close> were copied to index \<open>d\<close>. The source passes lengths and positions of type
  \<open>int\<close>; a negative one, undefined in C, copies nothing here.
\<close>

definition memcpy :: "mem \<Rightarrow> nat \<Rightarrow> mem \<Rightarrow> nat \<Rightarrow> nat \<Rightarrow> mem" where
  "memcpy dst d src s n = (\<lambda>i. if d \<le> i \<and> i < d + n then src (s + (i - d)) else dst i)"

text \<open>
  The caller's buffer is the region \<open>out\<close> and the pointer \<open>audiodata\<close> an index into
  it. The result is the returned value and the buffer. The sum \<open>pos + len - size\<close> is
  taken on unbounded integers: it is the source's value where \<open>pos + len\<close> fits an
  \<open>int\<close>, as it does for a request whose end, offset + length, does.
\<close>

definition AVI_GetAudioChunkFromCache ::
  "'c movie_state \<Rightarrow> mem \<Rightarrow> nat \<Rightarrow> int \<Rightarrow> int \<Rightarrow> int \<times> mem" where
  "AVI_GetAudioChunkFromCache s out audiodata pos len =
     (let size = cached_audio_len s;
          wrapped = pos + len - size
      in if wrapped < 0
         then (0, memcpy out audiodata (cached_audio s) (nat pos) (nat len))
         else
           let remaining = size - pos
           in (wrapped,
               if remaining > 0
               then memcpy out audiodata (cached_audio s) (nat pos) (nat remaining)
               else out))"

subsection \<open>Timestamp conversions\<close>

definition AVI_AudioOffsetToTimestamp ::
  "'c avlib \<Rightarrow> int \<Rightarrow> int \<Rightarrow> int \<Rightarrow> int \<times> int \<Rightarrow> int" where
  "AVI_AudioOffsetToTimestamp env offset bytes_per_sample rt tb =
     (if offset = 0 then 0
      else if fst tb = 1 \<and> snd tb = rt then offset sdiv bytes_per_sample
      else q2d_offset_to_ts env offset bytes_per_sample rt tb)"

definition AVI_AudioTimestampToOffset ::
  "'c avlib \<Rightarrow> int \<Rightarrow> int \<Rightarrow> int \<Rightarrow> int \<times> int \<Rightarrow> int" where
  "AVI_AudioTimestampToOffset env ts bytes_per_sample rt tb =
     (if ts = 0 then 0
      else if fst tb = 1 \<and> snd tb = rt then ts * bytes_per_sample
      else q2d_ts_to_offset env ts bytes_per_sample rt tb)"

subsection \<open>The refill loop of AVI\_GetAudioChunk\<close>

text \<open>
  One pass through the body of the \<open>while( true )\<close> loop either leaves the loop, by
  \<open>return 0\<close> or by \<open>break\<close>, or goes round again.
\<close>

datatype loop_exit = Return0 | Break

datatype 'c pass = Leave loop_exit "'c movie_state" | Again "'c movie_state"

text \<open>
  The read loop at the end of the body: the next packet of the audio stream moves into
  \<open>pkt\<close>; the result is \<open>ret\<close>, \<open>valid\<close> and the session.
\<close>

definition read_audio_packet ::
  "'c avlib \<Rightarrow> 'c movie_state \<Rightarrow> int \<times> bool \<times> 'c movie_state" where
  "read_audio_packet env s =
     (case next_of_stream (audio_stream s) (upcoming (fmt_ctx s)) of
        None \<Rightarrow>
          (AVERROR_EOF env, False,
           s\<lparr>fmt_ctx := (fmt_ctx s)\<lparr>upcoming := []\<rparr>, pkt_seek := blank_packet\<rparr>)
      | Some (p, rest) \<Rightarrow>
          (0, True,
           s\<lparr>fmt_ctx := (fmt_ctx s)\<lparr>upcoming := rest\<rparr>, pkt := p,
             pkt_seek := blank_packet\<rparr>))"

text \<open>
  \<open>swr_convert\<close> writes the converted samples of the frame at the end of the cache; the
  source counts \<open>size\<close> bytes for them. \<open>Mem_Realloc\<close> keeps the contents and changes
  the size of the block.
\<close>

definition refill_pass :: "'c avlib \<Rightarrow> int \<Rightarrow> 'c movie_state \<Rightarrow> 'c pass" where
  "refill_pass env bytes_per_sample s =
     (case AVI_DecodePacket env (audio_ctx s) (pkt s) (frame s) of (r, ctx, f) \<Rightarrow>
        if r < 0
        then Leave Return0 (s\<lparr>audio_ctx := ctx, frame := f, pkt := blank_packet\<rparr>)
        else
          let s1 = s\<lparr>audio_ctx := ctx, frame := f, pkt := blank_packet\<rparr>;
              size = nb_samples f * bytes_per_sample
          in if cached_audio_len s1 + size > cached_audio_buf_len s1
                \<and> cached_audio_len s1 \<noteq> 0
             then Leave Break s1
             else
               let s2 = (if cached_audio_len s1 + size > cached_audio_buf_len s1
                         then s1\<lparr>cached_audio_alloc := size * 2\<rparr> else s1);
                   s3 = s2\<lparr>cached_audio :=
                              memcpy (cached_audio s2) (nat (cached_audio_len s2))
                                (swr_convert env f) 0 (nat size),
                            cached_audio_len := cached_audio_len s2 + size,
                            frame := blank_frame\<rparr>
               in if cached_audio_len s3 + cached_audio_off s3 \<ge> audio_eof_position s3
                  then Leave Break s3
                  else
                    (case read_audio_packet env s3 of (ret, valid, s4) \<Rightarrow>
                       if ret = AVERROR_EOF env \<or> \<not> valid
                       then Again (s4\<lparr>audio_eof_position :=
                                          cached_audio_off s4 + cached_audio_len s4\<rparr>)
                       else Again s4))"

text \<open>The loop itself; the first argument bounds the number of passes.\<close>

fun refill ::
  "nat \<Rightarrow> 'c avlib \<Rightarrow> int \<Rightarrow> 'c movie_state \<Rightarrow> (loop_exit \<times> 'c movie_state) option" where
  "refill 0 env bytes_per_sample s = None"
| "refill (Suc k) env bytes_per_sample s =
     (case refill_pass env bytes_per_sample s of
        Leave e s' \<Rightarrow> Some (e, s')
      | Again s' \<Rightarrow> refill k env bytes_per_sample s')"

subsection \<open>AVI\_GetAudioChunk\<close>

text \<open>
  The first block of \<open>AVI_GetAudioChunk\<close>, the look into the cache. It either returns
  from the function (\<open>Served\<close>, with the returned value and the buffer) or goes on to the
  seek with the session, the buffer, the pointer \<open>audiodata\<close> and \<open>length\<close> as they now
  are (\<open>Proceed\<close>).
\<close>

datatype 'c cache_result =
  Served int mem "'c movie_state"
| Proceed "'c movie_state" mem nat int

definition cache_lookup ::
  "'c movie_state \<Rightarrow> mem \<Rightarrow> nat \<Rightarrow> int \<Rightarrow> int \<Rightarrow> 'c cache_result" where
  "cache_lookup s out audiodata offset len =
     (if have_audio_cache s \<and> offset \<ge> cached_audio_off s then
        let cache_pos = offset - cached_audio_off s in
        case AVI_GetAudioChunkFromCache s out audiodata cache_pos len of (newlen, out1) \<Rightarrow>
          if newlen \<ge> len then Proceed (s\<lparr>have_audio_cache := False\<rparr>) out1 audiodata len
          else if newlen = 0 then Served len out1 s
          else if newlen < len then Proceed s out1 (audiodata + nat newlen) (len - newlen)
          else Proceed s out1 audiodata len
      else Proceed s out audiodata len)"

text \<open>
  The function calls itself at its end and loops inside; the first argument bounds the
  depth of the calls and the passes of each refill loop, and \<open>None\<close> says that the bound
  was too small. The result is the returned value, the caller's buffer and the session.
\<close>

fun AVI_GetAudioChunk ::
  "nat \<Rightarrow> 'c avlib \<Rightarrow> 'c movie_state \<Rightarrow> mem \<Rightarrow> nat \<Rightarrow> int \<Rightarrow> int
     \<Rightarrow> (int \<times> mem \<times> 'c movie_state) option" where
  "AVI_GetAudioChunk 0 env s out audiodata offset len = None"
| "AVI_GetAudioChunk (Suc n) env s out audiodata offset len =
     (case cache_lookup s out audiodata offset len of
        Served r out1 s1 \<Rightarrow> Some (r, out1, s1)
      | Proceed s1 out1 audiodata1 len1 \<Rightarrow>
          let tb = time_base (fmt_ctx s1) (audio_stream s1);
              bytes_per_sample = channels s1 * av_get_bytes_per_sample env (s_fmt s1);
              ts = AVI_AudioOffsetToTimestamp env offset bytes_per_sample (rate s1) tb
          in (case AVI_SeekAudio env s1 ts of (ret, s2) \<Rightarrow>
               if ret < 0 then Some (0, out1, s2)
               else
                 let s3 = s2\<lparr>cached_audio_off :=
                                AVI_AudioTimestampToOffset env (dts (pkt s2))
                                  bytes_per_sample (rate s2)
                                  (time_base (fmt_ctx s2) (audio_stream s1)),
                              cached_audio_len := 0,
                              have_audio_cache := True\<rparr>
                 in (case refill n env bytes_per_sample s3 of
                       None \<Rightarrow> None
                     | Some (Return0, s4) \<Rightarrow> Some (0, out1, s4)
                     | Some (Break, s4) \<Rightarrow>
                         if cached_audio_len s4 = 0 then Some (0, out1, s4)
                         else AVI_GetAudioChunk n env s4 out1 audiodata1 offset len1)))"

subsection \<open>AVI\_OpenCodecContext and AVI\_OpenVideo\<close>

text \<open>The result is the returned value and, when the function stored one, the codec
  context.\<close>

definition AVI_OpenCodecContext ::
  "'c avlib \<Rightarrow> demux \<Rightarrow> media_type \<Rightarrow> int \<times> 'c option" where
  "AVI_OpenCodecContext env d type =
     (let ret = av_find_best_stream env d type in
      if ret < 0 then (ret, None)
      else
        let idx = ret in
        if \<not> avcodec_find_decoder env d idx then (AVERROR_EINVAL env, None)
        else
          (case avcodec_alloc_context3 env d idx of
             None \<Rightarrow> (AVERROR_ENOMEM env, None)
           | Some dec_ctx \<Rightarrow>
               (case avcodec_parameters_to_context env dec_ctx d idx of (ret1, c1) \<Rightarrow>
                  if ret1 < 0 then (ret1, None)
                  else (case avcodec_open2 env c1 of (ret2, c2) \<Rightarrow>
                    if ret2 < 0 then (ret2, None) else (idx, Some c2)))))"

definition store_ctx :: "'c option \<Rightarrow> 'c \<Rightarrow> 'c" where
  "store_ctx new old = (case new of None \<Rightarrow> old | Some c \<Rightarrow> c)"

text \<open>
  The audio part of \<open>AVI_OpenVideo\<close>, entered when \<open>load_audio\<close> is set. The resampler
  is allocated and initialised without a check.
\<close>

definition open_audio :: "'c avlib \<Rightarrow> 'c movie_state \<Rightarrow> 'c movie_state" where
  "open_audio env s =
     (case AVI_OpenCodecContext env (fmt_ctx s) AVMEDIA_TYPE_AUDIO of (idx, c) \<Rightarrow>
        let s1 = s\<lparr>audio_stream := idx, audio_ctx := store_ctx c (audio_ctx s)\<rparr> in
        if audio_stream s1 < 0 then s1
        else s1\<lparr>swr_ctx := True,
                channels := 2,
                s_fmt := AV_SAMPLE_FMT_S16 env,
                rate := 44100,
                cached_audio_buf_len := MAX_RAW_SAMPLES env,
                cached_audio := Mem_Malloc env (MAX_RAW_SAMPLES env),
                cached_audio_alloc := MAX_RAW_SAMPLES env,
                audio_eof_position := INT_MAX\<rparr>)"

text \<open>
  The part of \<open>AVI_OpenVideo\<close> after the three scratch objects were allocated: the
  session is marked active, then the pixel converter and the picture are allocated.
\<close>

definition open_picture :: "'c avlib \<Rightarrow> 'c movie_state \<Rightarrow> bool \<Rightarrow> 'c movie_state" where
  "open_picture env s load_audio =
     (let s1 = s\<lparr>xres := ctx_width env (video_ctx s),
                 yres := ctx_height env (video_ctx s),
                 pix_fmt := ctx_pix_fmt env (video_ctx s),
                 duration := real_of_int (ctx_duration (fmt_ctx s))
                             / real_of_int (AV_TIME_BASE env),
                 active := True,
                 keyframe_ts := INT64_MIN,
                 currentframe_ts := INT64_MIN\<rparr>
      in if \<not> sws_getContext env (xres s1) (yres s1) (pix_fmt s1)
         then s1\<lparr>sws_ctx := False\<rparr>
         else
           (case av_image_alloc env (xres s1) (yres s1) of (ret, p) \<Rightarrow>
              if ret < 0 then s1\<lparr>sws_ctx := True\<rparr>
              else
                let s2 = s1\<lparr>sws_ctx := True, dst0 := p\<rparr>
                in if load_audio then open_audio env s2 else s2))"

text \<open>A \<open>NULL\<close> file name is \<open>None\<close>. The assignments of \<open>NULL\<close> to the three
  contexts at the start have no counterpart on handles that are modelled by their
  objects.\<close>

definition AVI_OpenVideo ::
  "'c avlib \<Rightarrow> 'c movie_state \<Rightarrow> string option \<Rightarrow> bool \<Rightarrow> bool \<Rightarrow> 'c movie_state" where
  "AVI_OpenVideo env s filename load_audio qt =
     (case filename of
        None \<Rightarrow> s\<lparr>active := False\<rparr>
      | Some name \<Rightarrow>
          let s0 = s\<lparr>active := False, quiet := qt\<rparr> in
          (case avformat_open_input env name of (ret, d) \<Rightarrow>
             if ret < 0 then s0
             else
               (case avformat_find_stream_info env d of (ret1, d1) \<Rightarrow>
                  let s1 = s0\<lparr>fmt_ctx := d1\<rparr> in
                  if ret1 < 0 then s1
                  else
                    (case AVI_OpenCodecContext env d1 AVMEDIA_TYPE_VIDEO of (idx, c) \<Rightarrow>
                       let s2 = s1\<lparr>video_stream := idx,
                                   video_ctx := store_ctx c (video_ctx s1)\<rparr>
                       in if video_stream s2 < 0 then s2
                          else if \<not> av_packet_alloc env 0 then s2
                          else if \<not> av_packet_alloc env 1 then s2\<lparr>pkt := blank_packet\<rparr>
                          else if \<not> av_frame_alloc env
                          then s2\<lparr>pkt := blank_packet, pkt_seek := blank_packet\<rparr>
                          else open_picture env
                                 (s2\<lparr>pkt := blank_packet, pkt_seek := blank_packet,
                                     frame := blank_frame\<rparr>) load_audio))))"

subsection \<open>A reference instance of the media library\<close>

text \<open>
  To run the model, an instance of the library: a raw PCM stream, where every packet
  decodes to one frame that holds the packet's bytes, at four bytes a sample. The codec
  context is the flag "draining" and the queue of packets sent and not yet received.
  A blank packet starts draining; while draining, the decoder takes no packet. Seeking
  puts the read position on the last packet of the stream that is not later than the
  timestamp.
\<close>

type_synonym pcm_ctx = "bool \<times> packet list"

definition pcm_frame :: "packet \<Rightarrow> frame" where
  "pcm_frame p = \<lparr>width = 2, height = 2, format = 0,
                   nb_samples = int (length (payload p)) div 4, raw = payload p\<rparr>"

definition frame_bytes :: "frame \<Rightarrow> mem" where
  "frame_bytes f = (\<lambda>i. if i < length (raw f) then raw f ! i else 0)"

fun seek_index :: "int \<Rightarrow> int \<Rightarrow> packet list \<Rightarrow> nat \<Rightarrow> nat \<Rightarrow> nat" where
  "seek_index st ts [] i best = best"
| "seek_index st ts (p # ps) i best =
     seek_index st ts ps (Suc i) (if stream_index p = st \<and> dts p \<le> ts then i else best)"

definition pcm_seek :: "demux \<Rightarrow> int \<Rightarrow> int \<Rightarrow> int \<Rightarrow> int \<times> demux" where
  "pcm_seek d st ts flags =
     (0, d\<lparr>upcoming := drop (seek_index st ts (container d) 0 0) (container d)\<rparr>)"

definition pcm_send :: "pcm_ctx \<Rightarrow> packet \<Rightarrow> int \<times> pcm_ctx" where
  "pcm_send c p =
     (if fst c then (- 541478725, c)
      else if payload p = [] then (0, (True, snd c))
      else (0, (False, snd c @ [p])))"

definition pcm_receive :: "pcm_ctx \<Rightarrow> int \<times> frame \<times> pcm_ctx" where
  "pcm_receive c =
     (case snd c of
        p # ps \<Rightarrow> (0, pcm_frame p, (fst c, ps))
      | [] \<Rightarrow> (if fst c then (- 541478725, blank_frame, c) else (- 11, blank_frame, c)))"

definition mk_packet :: "int \<Rightarrow> int \<Rightarrow> byte list \<Rightarrow> packet" where
  "mk_packet st t bs = \<lparr>stream_index = st, dts = t, payload = bs\<rparr>"

text \<open>A file of one video stream (index 0) and one audio stream (index 1) at 44100 Hz,
  one sample to a packet.\<close>

definition demo_file :: demux where
  "demo_file =
     \<lparr>container =
        [mk_packet 0 0 [9, 9, 9, 9], mk_packet 1 0 [1, 1, 1, 1],
         mk_packet 1 1 [2, 2, 2, 2], mk_packet 0 1 [8, 8, 8, 8],
         mk_packet 1 2 [3, 3, 3, 3], mk_packet 1 3 [4, 4, 4, 4],
         mk_packet 1 4 [5, 5, 5, 5]],
      upcoming = [],
      time_base = (\<lambda>i. if i = 1 then (1, 44100) else (1, 25)),
      ctx_duration = 1000000\<rparr>"

definition pcm_lib :: "pcm_ctx avlib" where
  "pcm_lib =
     \<lparr>AVERROR_EOF = - 541478725, AVERROR_EAGAIN = - 11, AVERROR_EINVAL = - 22,
      AVERROR_ENOMEM = - 12, MAX_RAW_SAMPLES = 8192, AV_TIME_BASE = 1000000,
      AV_PIX_FMT_BGRA = 28, AV_SAMPLE_FMT_S16 = 1,
      Q_rint = (\<lambda>x. if x < 0 then \<lceil>x - 1 / 2\<rceil> else \<lfloor>x + 1 / 2\<rfloor>),
      avformat_open_input = (\<lambda>name. (0, demo_file)),
      avformat_find_stream_info = (\<lambda>d. (0, d)),
      av_find_best_stream =
        (\<lambda>d t. case t of AVMEDIA_TYPE_VIDEO \<Rightarrow> 0 | AVMEDIA_TYPE_AUDIO \<Rightarrow> 1),
      avcodec_find_decoder = (\<lambda>d i. True),
      avcodec_alloc_context3 = (\<lambda>d i. Some (False, [])),
      avcodec_parameters_to_context = (\<lambda>c d i. (0, c)),
      avcodec_open2 = (\<lambda>c. (0, c)),
      ctx_width = (\<lambda>c. 2), ctx_height = (\<lambda>c. 2), ctx_pix_fmt = (\<lambda>c. 0),
      av_packet_alloc = (\<lambda>i. True), av_frame_alloc = True,
      sws_getContext = (\<lambda>w h f. True),
      av_image_alloc = (\<lambda>w h. (16, 4096)),
      Mem_Malloc = (\<lambda>n i. 0),
      avformat_seek_file = pcm_seek,
      avcodec_send_packet = pcm_send,
      avcodec_receive_frame = pcm_receive,
      avcodec_flush_buffers = (\<lambda>c. (False, [])),
      sws_scale = frame_bytes,
      swr_convert = frame_bytes,
      av_get_bytes_per_sample = (\<lambda>f. if f = 1 then 2 else 4),
      q2d_offset_to_ts = (\<lambda>off b r tb. 0),
      q2d_ts_to_offset = (\<lambda>ts b r tb. 0)\<rparr>"

text \<open>A session in the all-zero state of the session table, and the session that
  \<open>AVI_OpenVideo\<close> makes of it on the file above, with audio.\<close>

definition zero_session :: "pcm_ctx movie_state" where
  "zero_session =
     \<lparr>active = False, quiet = False,
      fmt_ctx = \<lparr>container = [], upcoming = [], time_base = (\<lambda>i. (0, 0)),
                 ctx_duration = 0\<rparr>,
      video_ctx = (False, []), audio_ctx = (False, []),
      sws_ctx = False, swr_ctx = False,
      frame = blank_frame, pkt = blank_packet, pkt_seek = blank_packet,
      video_stream = 0, xres = 0, yres = 0, duration = 0, pix_fmt = 0,
      audio_stream = 0, channels = 0, rate = 0, s_fmt = 0,
      dst0 = NULL, dst_image = (\<lambda>i. 0),
      keyframe_ts = 0, currentframe_ts = 0,
      cached_audio_buf_len = 0, cached_audio_len = 0, cached_audio_off = 0,
      audio_eof_position = 0, have_audio_cache = False,
      cached_audio = (\<lambda>i. 0), cached_audio_alloc = 0\<rparr>"

definition demo_session :: "pcm_ctx movie_state" where
  "demo_session = AVI_OpenVideo pcm_lib zero_session (Some ''demo.avi'') True False"

definition silence :: mem where
  "silence = (\<lambda>i. 0)"

text \<open>The opened session with eight bytes of audio, from stream offset 0, in its cache.\<close>

definition cached_session :: "pcm_ctx movie_state" where
  "cached_session =
     demo_session\<lparr>have_audio_cache := True, cached_audio_off := 0, cached_audio_len := 8,
       cached_audio := frame_bytes (pcm_frame (mk_packet 1 0 [1, 1, 1, 1, 2, 2, 2, 2]))\<rparr>"

text \<open>Two variants of the library: a file without an audio stream, and a file that
  cannot be opened.\<close>

definition video_only_lib :: "pcm_ctx avlib" where
  "video_only_lib =
     pcm_lib\<lparr>av_find_best_stream :=
       (\<lambda>d t. case t of AVMEDIA_TYPE_VIDEO \<Rightarrow> 0 | AVMEDIA_TYPE_AUDIO \<Rightarrow> - 1381258232)\<rparr>"

definition missing_file_lib :: "pcm_ctx avlib" where
  "missing_file_lib = pcm_lib\<lparr>avformat_open_input := (\<lambda>name. (- 2, demo_file))\<rparr>"



definition empty_file :: demux where
  "empty_file = demo_file\<lparr>container := []\<rparr>"

text \<open>
  The library's contract for draining a decoder, as documented for
  \<open>avcodec_send_packet\<close>: a blank packet (no data) puts the decoder into draining;
  a draining decoder refuses every packet with an error and stays draining until
  \<open>avcodec_flush_buffers\<close>, also while its last frames are received. \<open>D\<close> is the set
  of draining states of the codec context. The error code for end of file is negative.
\<close>

definition draining_contract :: "'c avlib \<Rightarrow> ('c \<Rightarrow> bool) \<Rightarrow> bool" where
  "draining_contract env D \<longleftrightarrow>
     AVERROR_EOF env < 0
     \<and> (\<forall>c. D (snd (avcodec_send_packet env c blank_packet)))
     \<and> (\<forall>c p. D c \<longrightarrow> fst (avcodec_send_packet env c p) < 0
                       \<and> D (snd (avcodec_send_packet env c p)))
     \<and> (\<forall>c. D c \<longrightarrow> D (snd (snd (avcodec_receive_frame env c))))"

text \<open>
  A sequence of retrieval calls on a session, each audio request with the same bound
  and the caller's buffer as the call before left it; \<open>None\<close> when a call does not
  return within the bound.
\<close>

datatype request = AudioChunk int int | VideoFrame int

fun play ::
  "nat \<Rightarrow> 'c avlib \<Rightarrow> 'c movie_state \<Rightarrow> mem \<Rightarrow> request list \<Rightarrow> 'c movie_state option" where
  "play n env s out [] = Some s"
| "play n env s out (AudioChunk offset len # rs) =
     (case AVI_GetAudioChunk n env s out 0 offset len of
        None \<Rightarrow> None
      | Some (r, out', s') \<Rightarrow> play n env s' out' rs)"
| "play n env s out (VideoFrame target # rs) =
     play n env (snd (AVI_GetVideoFrame env s target)) out rs"

text \<open>The opened session after a request of 4 bytes at offset 100, beyond the 20 bytes
  of audio in the file.\<close>

definition drained_session :: "pcm_ctx movie_state" where
  "drained_session =
     (case AVI_GetAudioChunk (Suc (Suc (Suc 0))) pcm_lib demo_session silence 0 100 4 of
        None \<Rightarrow> demo_session | Some (r, out', s') \<Rightarrow> s')"

text \<open>
  A file of which only the header can be read, opened with a library that has no
  converter for its pixel format, and the session that \<open>AVI_OpenVideo\<close> makes of it.
\<close>

definition broken_converter_lib :: "pcm_ctx avlib" where
  "broken_converter_lib =
     pcm_lib\<lparr>avformat_open_input := (\<lambda>name. (0, empty_file)),
       sws_getContext := (\<lambda>w h f. False)\<rparr>"

definition half_open_session :: "pcm_ctx movie_state" where
  "half_open_session =
     AVI_OpenVideo broken_converter_lib zero_session (Some ''demo.avi'') False False"

text \<open>
  In the words of the claim on the audio seek: the last packet of stream \<open>a\<close> among
  \<open>ps\<close> whose timestamp is not later than \<open>ts\<close>. Then a file whose audio timestamps
  are out of order, and a library whose seek goes back to the start of the file.
\<close>

definition closest_not_exceeding :: "int \<Rightarrow> int \<Rightarrow> packet list \<Rightarrow> packet option" where
  "closest_not_exceeding a ts ps =
     (case filter (\<lambda>p. stream_index p = a \<and> dts p \<le> ts) ps of
        [] \<Rightarrow> None
      | q # qs \<Rightarrow> Some (last (q # qs)))"

definition unordered_file :: demux where
  "unordered_file =
     demo_file\<lparr>container :=
       [mk_packet 1 0 [1, 1, 1, 1], mk_packet 1 5 [2, 2, 2, 2], mk_packet 1 2 [3, 3, 3, 3]]\<rparr>"

definition rewind_lib :: "pcm_ctx avlib" where
  "rewind_lib =
     pcm_lib\<lparr>avformat_seek_file := (\<lambda>d st ts flags. (0, d\<lparr>upcoming := container d\<rparr>))\<rparr>"

text \<open>
  A file positioned at its start when opened, with a library whose seek fails with
  \<open>AVERROR(EPERM)\<close> and leaves the read position where it is, and the session opened
  on it.
\<close>

definition fresh_file :: demux where
  "fresh_file = demo_file\<lparr>upcoming := container demo_file\<rparr>"

definition stuck_seek_lib :: "pcm_ctx avlib" where
  "stuck_seek_lib =
     pcm_lib\<lparr>avformat_open_input := (\<lambda>name. (0, fresh_file)),
       avformat_seek_file := (\<lambda>d st ts flags. (- 1, d))\<rparr>"

definition unseekable_session :: "pcm_ctx movie_state" where
  "unseekable_session =
     AVI_OpenVideo stuck_seek_lib zero_session (Some ''demo.avi'') False False"

text \<open>
  A file with more audio than the cache's capacity: four packets of 1024 samples, 4096
  bytes each. \<open>stuck_session c\<close> is the session opened on it after a refill round from
  offset 0, with \<open>c\<close> in the cache block; \<open>refilled c\<close> is the block after one more
  round.
\<close>

definition long_file :: demux where
  "long_file =
     demo_file\<lparr>container :=
       [mk_packet 0 0 [9, 9, 9, 9],
        mk_packet 1 0 (replicate 4096 1), mk_packet 1 1024 (replicate 4096 2),
        mk_packet 1 2048 (replicate 4096 3), mk_packet 1 3072 (replicate 4096 4)]\<rparr>"

definition long_lib :: "pcm_ctx avlib" where
  "long_lib = pcm_lib\<lparr>avformat_open_input := (\<lambda>name. (0, long_file))\<rparr>"

definition long_session :: "pcm_ctx movie_state" where
  "long_session = AVI_OpenVideo long_lib zero_session (Some ''long.avi'') True False"

definition stuck_session :: "mem \<Rightarrow> pcm_ctx movie_state" where
  "stuck_session c =
     long_session\<lparr>fmt_ctx := long_file\<lparr>upcoming := []\<rparr>,
       frame := pcm_frame (mk_packet 1 3072 (replicate 4096 4)),
       have_audio_cache := True, cached_audio_len := 8192, cached_audio := c\<rparr>"

definition refilled :: "mem \<Rightarrow> mem" where
  "refilled c =
     memcpy (memcpy c 0 (frame_bytes (pcm_frame (mk_packet 1 0 (replicate 4096 1)))) 0 4096)
       4096 (frame_bytes (pcm_frame (mk_packet 1 2048 (replicate 4096 3)))) 0 4096"

section \<open>Properties\<close>

subsection \<open>Evaluating the reference instance\<close>

lemmas open_defs = AVI_OpenVideo_def open_picture_def open_audio_def AVI_OpenCodecContext_def
  store_ctx_def zero_session_def

lemmas pcm_defs = pcm_lib_def pcm_seek_def pcm_send_def pcm_receive_def pcm_frame_def
  demo_file_def mk_packet_def

lemma demo_session_eq:
  "demo_session =
     \<lparr>active = True, quiet = False, fmt_ctx = demo_file,
      video_ctx = (False, []), audio_ctx = (False, []),
      sws_ctx = True, swr_ctx = True,
      frame = blank_frame, pkt = blank_packet, pkt_seek = blank_packet,
      video_stream = 0, xres = 2, yres = 2, duration = 1, pix_fmt = 0,
      audio_stream = 1, channels = 2, rate = 44100, s_fmt = 1,
      dst0 = 4096, dst_image = (\<lambda>i. 0),
      keyframe_ts = INT64_MIN, currentframe_ts = INT64_MIN,
      cached_audio_buf_len = 8192, cached_audio_len = 0, cached_audio_off = 0,
      audio_eof_position = INT_MAX, have_audio_cache = False,
      cached_audio = (\<lambda>i. 0), cached_audio_alloc = 8192\<rparr>"
  by (simp add: demo_session_def open_defs pcm_defs)

lemmas chunk_eval = AVI_SeekAudio_def AVSEEK_FLAG_ANY_def
      cache_lookup_def AVI_GetAudioChunkFromCache_def AVI_AudioOffsetToTimestamp_def
      AVI_AudioTimestampToOffset_def refill_pass_def AVI_DecodePacket_def
      read_audio_packet_def INT_MAX_def blank_packet_def

lemma long_session_eq:
  "long_session =
     \<lparr>active = True, quiet = False, fmt_ctx = long_file,
      video_ctx = (False, []), audio_ctx = (False, []),
      sws_ctx = True, swr_ctx = True,
      frame = blank_frame, pkt = blank_packet, pkt_seek = blank_packet,
      video_stream = 0, xres = 2, yres = 2, duration = 1, pix_fmt = 0,
      audio_stream = 1, channels = 2, rate = 44100, s_fmt = 1,
      dst0 = 4096, dst_image = (\<lambda>i. 0),
      keyframe_ts = INT64_MIN, currentframe_ts = INT64_MIN,
      cached_audio_buf_len = 8192, cached_audio_len = 0, cached_audio_off = 0,
      audio_eof_position = INT_MAX, have_audio_cache = False,
      cached_audio = (\<lambda>i. 0), cached_audio_alloc = 8192\<rparr>"
  by (simp add: long_session_def long_lib_def long_file_def open_defs pcm_defs)

lemma memcpy_nothing: "memcpy dst d src s 0 = dst"
  by (rule ext) (auto simp: memcpy_def)

lemmas long_eval = long_session_eq long_lib_def long_file_def pcm_defs chunk_eval memcpy_nothing

lemma triple_collapse: "x = (fst x, fst (snd x), snd (snd x))"
  by simp

lemma cached_session_cache:
  "have_audio_cache cached_session" "cached_audio_off cached_session = 0"
  "cached_audio_len cached_session = 8"
  by (simp_all add: cached_session_def)

subsection \<open>Serving a request from the cache\<close>

lemma memcpy_inside: "i < n \<Longrightarrow> memcpy dst d src s n (d + i) = src (s + i)"
  by (simp add: memcpy_def)

lemma memcpy_outside: "j < d \<or> d + n \<le> j \<Longrightarrow> memcpy dst d src s n j = dst j"
  by (auto simp: memcpy_def)

lemma cache_lookup_hit:
  assumes "have_audio_cache s" "cached_audio_off s \<le> offset"
    "offset + len \<le> cached_audio_off s + cached_audio_len s" "0 < len"
  shows "cache_lookup s out audiodata offset len =
           Served len (memcpy out audiodata (cached_audio s)
                         (nat (offset - cached_audio_off s)) (nat len)) s"
proof (cases "offset + len < cached_audio_off s + cached_audio_len s")
  case True
  with assms show ?thesis
    by (simp add: cache_lookup_def AVI_GetAudioChunkFromCache_def Let_def)
next
  case False
  with assms have eq: "cached_audio_len s - (offset - cached_audio_off s) = len" by simp
  with assms False show ?thesis
    by (simp add: cache_lookup_def AVI_GetAudioChunkFromCache_def Let_def)
qed

text \<open>
  C1, as the code has it. When a valid cache covers the whole of a request of positive
  length (the offset is at or after the cache's offset and offset + length does not
  exceed the cache's end), \<open>AVI_GetAudioChunk\<close> copies the requested bytes from the
  cache into the caller's buffer, leaves the rest of the buffer alone, and returns the
  requested length: the function reports the bytes it delivered. The session, and with
  it the cache's validity, offset and length, is unchanged.
\<close>

theorem cache_hit_returns_length:
  assumes "have_audio_cache s" "cached_audio_off s \<le> offset"
    "offset + len \<le> cached_audio_off s + cached_audio_len s" "0 < len"
  shows "\<exists>out'. AVI_GetAudioChunk (Suc n) env s out audiodata offset len = Some (len, out', s)
           \<and> (\<forall>i < nat len. out' (audiodata + i)
                  = cached_audio s (nat (offset - cached_audio_off s) + i))
           \<and> (\<forall>j. j < audiodata \<or> audiodata + nat len \<le> j \<longrightarrow> out' j = out j)"
  using cache_lookup_hit [OF assms, of out audiodata]
  by (simp add: memcpy_inside memcpy_outside)

theorem cache_hit_returns_length_witness:
  "\<exists>out'. AVI_GetAudioChunk (Suc 0) pcm_lib cached_session silence 0 4 4
             = Some (4, out', cached_session)"
  using cache_hit_returns_length [of cached_session 4 4 0 pcm_lib silence 0]
  by (auto simp: cached_session_cache)

text \<open>
  C1 as stated asks for the value 0. On a cache that covers the four bytes from offset 0
  the call returns 4.
\<close>

theorem cache_hit_nonzero_counterexample:
  "have_audio_cache cached_session \<and> cached_audio_off cached_session \<le> 0
   \<and> 0 + 4 \<le> cached_audio_off cached_session + cached_audio_len cached_session
   \<and> map_option fst (AVI_GetAudioChunk (Suc 0) pcm_lib cached_session silence 0 0 4) = Some 4"
  by (simp add: cached_session_cache cache_lookup_def AVI_GetAudioChunkFromCache_def)

subsection \<open>Accessors on an inactive session\<close>

text \<open>
  C10. On a session with \<open>active = false\<close> the accessors return at once:
  \<open>AVI_GetVideoFrame\<close> gives the null pointer and leaves the session as it was,
  \<open>AVI_GetVideoInfo\<close> and \<open>AVI_GetAudioInfo\<close> give false and write none of their
  outputs, \<open>AVI_GetVideoFrameNumber\<close> and \<open>AVI_TimeToSoundPosition\<close> give 0. On any
  session whose audio stream index is negative, \<open>AVI_GetAudioInfo\<close> gives false and
  writes nothing.
\<close>

theorem inactive_accessors:
  "(\<not> active s \<longrightarrow>
      AVI_GetVideoFrame env s target = (NULL, s)
      \<and> AVI_GetVideoInfo s xres_p yres_p duration_p = (False, xres_p, yres_p, duration_p)
      \<and> AVI_GetAudioInfo env s snd_info = (False, snd_info)
      \<and> AVI_GetVideoFrameNumber env s time = 0
      \<and> AVI_TimeToSoundPosition env s ms = 0)
   \<and> (audio_stream s < 0 \<longrightarrow> AVI_GetAudioInfo env s snd_info = (False, snd_info))"
  by (simp add: AVI_GetVideoFrame_def AVI_GetVideoInfo_def AVI_GetAudioInfo_def
      AVI_GetVideoFrameNumber_def AVI_TimeToSoundPosition_def AVI_GetFrameNumber_def)

theorem inactive_accessors_witness:
  "\<not> active zero_session
   \<and> AVI_GetVideoFrame pcm_lib zero_session 0 = (NULL, zero_session)
   \<and> AVI_GetVideoInfo zero_session (Some 1) (Some 2) None = (False, Some 1, Some 2, None)
   \<and> AVI_GetVideoFrameNumber pcm_lib zero_session 1 = 0
   \<and> AVI_TimeToSoundPosition pcm_lib zero_session 40 = 0
   \<and> active (demo_session\<lparr>audio_stream := - 1\<rparr>)
   \<and> audio_stream (demo_session\<lparr>audio_stream := - 1\<rparr>) < 0
   \<and> fst (AVI_GetAudioInfo pcm_lib (demo_session\<lparr>audio_stream := - 1\<rparr>)
             \<lparr>wav_rate = 1, wav_channels = 2, wav_width = 3, wav_size = 4, wav_loopStart = 5\<rparr>)
       = False"
  using inactive_accessors [of zero_session pcm_lib 0 "Some 1" "Some 2" None
      "\<lparr>wav_rate = 1, wav_channels = 2, wav_width = 3, wav_size = 4, wav_loopStart = 5\<rparr>" 1 40]
    inactive_accessors [of "demo_session\<lparr>audio_stream := - 1\<rparr>" pcm_lib 0 None None None
      "\<lparr>wav_rate = 1, wav_channels = 2, wav_width = 3, wav_size = 4, wav_loopStart = 5\<rparr>" 1 40]
  by (simp add: demo_session_eq zero_session_def)

subsection \<open>The audio seek\<close>

lemma seek_audio_loop_run:
  "seek_audio_loop a ts ps valid cur =
     (let run = takeWhile (\<lambda>p. dts p \<le> ts) (filter (\<lambda>p. stream_index p = a) ps)
      in (valid \<or> run \<noteq> [], if run = [] then cur else last run,
          snd (snd (seek_audio_loop a ts ps valid cur))))"
  by (induction ps arbitrary: valid cur) (auto simp: Let_def)

lemma takeWhile_sorted_filter:
  "sorted (map dts ps) \<Longrightarrow>
     takeWhile (\<lambda>p. dts p \<le> ts) ps = filter (\<lambda>p. dts p \<le> (ts::int)) ps"
proof (induction ps)
  case Nil
  then show ?case by simp
next
  case (Cons p ps)
  show ?case
  proof (cases "dts p \<le> ts")
    case True
    with Cons show ?thesis by simp
  next
    case False
    with Cons.prems have "\<forall>q \<in> set ps. \<not> dts q \<le> ts" by auto
    then have "filter (\<lambda>p. dts p \<le> ts) ps = []" by (simp add: filter_empty_conv)
    with False show ?thesis by simp
  qed
qed

text \<open>
  C6, as the code has it. \<open>AVI_SeekAudio\<close> scans forward from where the library's
  seek left the read position, over the packets of the audio stream only, up to the first one later than
  \<open>ts\<close>. The session's current packet becomes the last packet of that run, and the
  function returns 0; when the run is empty, or the library's seek reports end of file,
  it returns \<open>AVERROR_EOF\<close> and keeps the current packet. Where the timestamps of the
  audio packets ahead are in order, the run is all the packets not later than \<open>ts\<close>,
  so that the packet kept is the closest one not exceeding the target.
\<close>

theorem seek_audio_closest:
  assumes seek: "avformat_seek_file env (fmt_ctx s) (audio_stream s) ts AVSEEK_FLAG_ANY = (r, d)"
    and run: "run = takeWhile (\<lambda>p. dts p \<le> ts)
                      (filter (\<lambda>p. stream_index p = audio_stream s) (upcoming d))"
  shows "(r < 0 \<and> r = AVERROR_EOF env \<longrightarrow>
            fst (AVI_SeekAudio env s ts) = AVERROR_EOF env
            \<and> pkt (snd (AVI_SeekAudio env s ts)) = pkt s)
       \<and> (\<not> (r < 0 \<and> r = AVERROR_EOF env) \<longrightarrow>
            (run \<noteq> [] \<longrightarrow> fst (AVI_SeekAudio env s ts) = 0
                         \<and> pkt (snd (AVI_SeekAudio env s ts)) = last run)
            \<and> (run = [] \<longrightarrow> fst (AVI_SeekAudio env s ts) = AVERROR_EOF env
                         \<and> pkt (snd (AVI_SeekAudio env s ts)) = pkt s))
       \<and> (sorted (map dts (filter (\<lambda>p. stream_index p = audio_stream s) (upcoming d))) \<longrightarrow>
            run = filter (\<lambda>p. dts p \<le> ts)
                    (filter (\<lambda>p. stream_index p = audio_stream s) (upcoming d)))"
proof -
  obtain v c rest where loop:
    "seek_audio_loop (audio_stream s) ts (upcoming d) False (pkt s) = (v, c, rest)"
    by (cases "seek_audio_loop (audio_stream s) ts (upcoming d) False (pkt s)") auto
  from loop seek_audio_loop_run [of "audio_stream s" ts "upcoming d" False "pkt s"] run
  have v: "v = (run \<noteq> [])" and c: "c = (if run = [] then pkt s else last run)"
    by (simp_all add: Let_def)
  have a: "r < 0 \<and> r = AVERROR_EOF env \<longrightarrow>
            fst (AVI_SeekAudio env s ts) = AVERROR_EOF env
            \<and> pkt (snd (AVI_SeekAudio env s ts)) = pkt s"
    using seek by (simp add: AVI_SeekAudio_def)
  have b: "\<not> (r < 0 \<and> r = AVERROR_EOF env) \<longrightarrow>
            (run \<noteq> [] \<longrightarrow> fst (AVI_SeekAudio env s ts) = 0
                         \<and> pkt (snd (AVI_SeekAudio env s ts)) = last run)
            \<and> (run = [] \<longrightarrow> fst (AVI_SeekAudio env s ts) = AVERROR_EOF env
                         \<and> pkt (snd (AVI_SeekAudio env s ts)) = pkt s)"
    using seek loop v c by (auto simp: AVI_SeekAudio_def Let_def)
  have c': "sorted (map dts (filter (\<lambda>p. stream_index p = audio_stream s) (upcoming d))) \<longrightarrow>
            run = filter (\<lambda>p. dts p \<le> ts)
                    (filter (\<lambda>p. stream_index p = audio_stream s) (upcoming d))"
    using run takeWhile_sorted_filter by blast
  from a b c' show ?thesis by blast
qed

theorem seek_audio_closest_witness:
  "fst (AVI_SeekAudio pcm_lib demo_session 2) = 0
   \<and> pkt (snd (AVI_SeekAudio pcm_lib demo_session 2)) = mk_packet 1 2 [3, 3, 3, 3]
   \<and> fst (AVI_SeekAudio pcm_lib demo_session (- 1)) = AVERROR_EOF pcm_lib"
proof -
  have seek: "avformat_seek_file pcm_lib (fmt_ctx demo_session) (audio_stream demo_session) 2
                AVSEEK_FLAG_ANY = (0, demo_file\<lparr>upcoming := drop 4 (container demo_file)\<rparr>)"
    by (simp add: demo_session_eq pcm_defs)
  have run: "[mk_packet 1 2 [3, 3, 3, 3]] = takeWhile (\<lambda>p. dts p \<le> 2)
               (filter (\<lambda>p. stream_index p = audio_stream demo_session)
                  (upcoming (demo_file\<lparr>upcoming := drop 4 (container demo_file)\<rparr>)))"
    by (simp add: demo_session_eq pcm_defs)
  have seek': "avformat_seek_file pcm_lib (fmt_ctx demo_session) (audio_stream demo_session) (- 1)
                AVSEEK_FLAG_ANY = (0, demo_file\<lparr>upcoming := container demo_file\<rparr>)"
    by (simp add: demo_session_eq pcm_defs)
  have run': "[] = takeWhile (\<lambda>p. dts p \<le> - 1)
               (filter (\<lambda>p. stream_index p = audio_stream demo_session)
                  (upcoming (demo_file\<lparr>upcoming := container demo_file\<rparr>)))"
    by (simp add: demo_session_eq pcm_defs)
  from seek_audio_closest [OF seek run] seek_audio_closest [OF seek' run']
  show ?thesis by simp
qed

text \<open>
  C6 as stated has the seek keep the last packet whose timestamp is not later than
  \<open>ts\<close>. With audio packets at timestamps 0, 5, 2 ahead and \<open>ts = 2\<close>, the scan
  stops at the packet of timestamp 5 and keeps the one of timestamp 0, while the packet
  of timestamp 2 is the last, and the closest, not later than \<open>ts\<close>.
\<close>

theorem seek_audio_unordered_counterexample:
  "fst (AVI_SeekAudio rewind_lib (demo_session\<lparr>fmt_ctx := unordered_file\<rparr>) 2) = 0
   \<and> pkt (snd (AVI_SeekAudio rewind_lib (demo_session\<lparr>fmt_ctx := unordered_file\<rparr>) 2))
       = mk_packet 1 0 [1, 1, 1, 1]
   \<and> closest_not_exceeding 1 2 (container unordered_file) = Some (mk_packet 1 2 [3, 3, 3, 3])"
  by (simp add: rewind_lib_def unordered_file_def closest_not_exceeding_def demo_session_eq
      pcm_defs AVI_SeekAudio_def)

subsection \<open>The video seek and the frame retrieval\<close>

lemma seek_video_found:
  assumes "avformat_seek_file env (fmt_ctx s) (video_stream s) ts 0 = (r, d)"
    "\<not> (r < 0 \<and> r = AVERROR_EOF env)"
    "next_of_stream (video_stream s) (upcoming d) = Some (p, rest)"
  shows "AVI_SeekVideo env s ts =
           (if keyframe_ts s \<noteq> dts p
            then (AVERROR_EAGAIN env,
                  s\<lparr>fmt_ctx := d\<lparr>upcoming := rest\<rparr>, keyframe_ts := dts p, pkt := p,
                    pkt_seek := blank_packet\<rparr>)
            else (0, s\<lparr>fmt_ctx := d\<lparr>upcoming := rest\<rparr>, pkt := p, pkt_seek := blank_packet\<rparr>))"
  using assms by (auto simp: AVI_SeekVideo_def Let_def)

lemma seek_video_keeps:
  "video_ctx (snd (AVI_SeekVideo env s ts)) = video_ctx s"
  "video_stream (snd (AVI_SeekVideo env s ts)) = video_stream s"
  "dst0 (snd (AVI_SeekVideo env s ts)) = dst0 s"
  "dst_image (snd (AVI_SeekVideo env s ts)) = dst_image s"
  "xres (snd (AVI_SeekVideo env s ts)) = xres s"
  "yres (snd (AVI_SeekVideo env s ts)) = yres s"
  "pix_fmt (snd (AVI_SeekVideo env s ts)) = pix_fmt s"
  "active (snd (AVI_SeekVideo env s ts)) = active s"
  by (simp_all add: AVI_SeekVideo_def Let_def split: prod.splits option.splits)

lemma video_select_keeps:
  "keyframe_ts (snd (video_select env s ts)) = keyframe_ts (snd (AVI_SeekVideo env s ts))"
  "video_stream (snd (video_select env s ts)) = video_stream s"
  "dst0 (snd (video_select env s ts)) = dst0 s"
  "dst_image (snd (video_select env s ts)) = dst_image s"
  "xres (snd (video_select env s ts)) = xres s"
  "yres (snd (video_select env s ts)) = yres s"
  "pix_fmt (snd (video_select env s ts)) = pix_fmt s"
  using seek_video_keeps [of env s ts]
  by (auto simp: video_select_def Let_def split: prod.splits)

lemma video_decode_keeps:
  "keyframe_ts (snd (video_decode env s)) = keyframe_ts s"
  "video_stream (snd (video_decode env s)) = video_stream s"
  "dst0 (snd (video_decode env s)) = dst0 s"
  "fst (video_decode env s) = dst0 s"
  by (simp_all add: video_decode_def Let_def split: prod.splits)

lemma get_video_frame_keyframe:
  "active s \<Longrightarrow> keyframe_ts (snd (AVI_GetVideoFrame env s ts))
                   = keyframe_ts (snd (AVI_SeekVideo env s ts))"
  "video_stream (snd (AVI_GetVideoFrame env s ts)) = video_stream s"
  using video_select_keeps [of env s ts]
  by (auto simp: AVI_GetVideoFrame_def video_decode_keeps split: prod.splits)

text \<open>
  C7, as the code has it. When the video seek finds a packet \<open>p\<close>: if its
  timestamp equals the stored keyframe timestamp, \<open>AVI_SeekVideo\<close> returns 0 ("continue decoding"), the stored
  timestamp stays and \<open>AVI_GetVideoFrame\<close> does not flush the decoder; otherwise it
  stores the packet's timestamp and returns \<open>AVERROR(EAGAIN)\<close> ("restart from
  keyframe"). In both cases \<open>p\<close> becomes the current packet. Hence, when a call of
  \<open>AVI_GetVideoFrame\<close> is followed by a seek to the same timestamp that lands on a
  packet of the same timestamp, that second seek returns 0 and the decoder is not flushed.
\<close>

theorem seek_video_continue_or_restart:
  assumes seek1: "avformat_seek_file env (fmt_ctx s) (video_stream s) ts 0 = (r, d)"
    and ok1: "\<not> (r < 0 \<and> r = AVERROR_EOF env)"
    and found1: "next_of_stream (video_stream s) (upcoming d) = Some (p, rest)"
  shows "(dts p = keyframe_ts s \<longrightarrow>
            fst (AVI_SeekVideo env s ts) = 0
            \<and> keyframe_ts (snd (AVI_SeekVideo env s ts)) = keyframe_ts s
            \<and> video_ctx (snd (video_select env s ts)) = video_ctx s)
       \<and> (dts p \<noteq> keyframe_ts s \<longrightarrow>
            fst (AVI_SeekVideo env s ts) = AVERROR_EAGAIN env
            \<and> keyframe_ts (snd (AVI_SeekVideo env s ts)) = dts p)
       \<and> pkt (snd (AVI_SeekVideo env s ts)) = p
       \<and> (active s \<and> s1 = snd (AVI_GetVideoFrame env s ts)
            \<and> avformat_seek_file env (fmt_ctx s1) (video_stream s1) ts 0 = (r', d')
            \<and> \<not> (r' < 0 \<and> r' = AVERROR_EOF env)
            \<and> next_of_stream (video_stream s1) (upcoming d') = Some (p', rest')
            \<and> dts p' = dts p \<longrightarrow>
              fst (AVI_SeekVideo env s1 ts) = 0
              \<and> video_ctx (snd (video_select env s1 ts)) = video_ctx s1)"
proof -
  note one = seek_video_found [OF seek1 ok1 found1]
  have k: "keyframe_ts (snd (AVI_SeekVideo env s ts)) = dts p"
    using one by simp
  have cont: "dts p = keyframe_ts s \<longrightarrow> video_ctx (snd (video_select env s ts)) = video_ctx s"
    using one by (simp add: video_select_def split: prod.splits)
  have two: "fst (AVI_SeekVideo env s1 ts) = 0
              \<and> video_ctx (snd (video_select env s1 ts)) = video_ctx s1"
    if act: "active s" and s1: "s1 = snd (AVI_GetVideoFrame env s ts)"
      and seek2: "avformat_seek_file env (fmt_ctx s1) (video_stream s1) ts 0 = (r', d')"
      and ok2: "\<not> (r' < 0 \<and> r' = AVERROR_EOF env)"
      and found2: "next_of_stream (video_stream s1) (upcoming d') = Some (p', rest')"
      and same: "dts p' = dts p"
  proof -
    have k1: "keyframe_ts s1 = dts p"
      using k s1 get_video_frame_keyframe(1) [OF act, of env ts] by simp
    have second: "AVI_SeekVideo env s1 ts =
        (0, s1\<lparr>fmt_ctx := d'\<lparr>upcoming := rest'\<rparr>, pkt := p', pkt_seek := blank_packet\<rparr>)"
      using seek_video_found [OF seek2 ok2 found2] k1 same by simp
    then show ?thesis
      by (simp add: video_select_def split: prod.splits)
  qed
  have a: "dts p = keyframe_ts s \<longrightarrow>
            fst (AVI_SeekVideo env s ts) = 0
            \<and> keyframe_ts (snd (AVI_SeekVideo env s ts)) = keyframe_ts s
            \<and> video_ctx (snd (video_select env s ts)) = video_ctx s"
    using one cont by simp
  have b: "dts p \<noteq> keyframe_ts s \<longrightarrow>
            fst (AVI_SeekVideo env s ts) = AVERROR_EAGAIN env
            \<and> keyframe_ts (snd (AVI_SeekVideo env s ts)) = dts p"
    using one by simp
  have c: "pkt (snd (AVI_SeekVideo env s ts)) = p"
    using one by simp
  from a b c two show ?thesis by blast
qed

theorem seek_video_continue_or_restart_witness:
  "fst (AVI_SeekVideo pcm_lib demo_session 0) = AVERROR_EAGAIN pcm_lib
   \<and> fst (AVI_SeekVideo pcm_lib (snd (AVI_GetVideoFrame pcm_lib demo_session 0)) 0) = 0"
proof -
  let ?V = "mk_packet 0 0 [9, 9, 9, 9]"
  let ?s1 = "snd (AVI_GetVideoFrame pcm_lib demo_session 0)"
  have s1: "fmt_ctx ?s1 = demo_file\<lparr>upcoming := tl (container demo_file)\<rparr>"
    "video_stream ?s1 = 0"
    by (simp_all add: demo_session_eq AVI_GetVideoFrame_def video_select_def
        AVI_SeekVideo_def video_decode_def AVI_DecodePacket_def pcm_defs INT64_MIN_def)
  have seek1: "avformat_seek_file pcm_lib (fmt_ctx demo_session) (video_stream demo_session) 0 0
                 = (0, demo_file\<lparr>upcoming := container demo_file\<rparr>)"
    by (simp add: demo_session_eq pcm_defs)
  have ok1: "\<not> ((0::int) < 0 \<and> 0 = AVERROR_EOF pcm_lib)" by simp
  have found1: "next_of_stream (video_stream demo_session)
                  (upcoming (demo_file\<lparr>upcoming := container demo_file\<rparr>))
                = Some (?V, tl (container demo_file))"
    by (simp add: demo_session_eq pcm_defs)
  have seek2: "avformat_seek_file pcm_lib (fmt_ctx ?s1) (video_stream ?s1) 0 0
                 = (0, demo_file\<lparr>upcoming := container demo_file\<rparr>)"
    by (simp add: s1) (simp add: pcm_defs)
  have found2: "next_of_stream (video_stream ?s1)
                  (upcoming (demo_file\<lparr>upcoming := container demo_file\<rparr>))
                = Some (?V, tl (container demo_file))"
    by (simp add: s1) (simp add: pcm_defs)
  have differs: "dts ?V \<noteq> keyframe_ts demo_session"
    by (simp add: demo_session_eq mk_packet_def INT64_MIN_def)
  from seek_video_continue_or_restart [OF seek1 ok1 found1,
      of ?s1 0 "demo_file\<lparr>upcoming := container demo_file\<rparr>" ?V "tl (container demo_file)"]
    seek2 found2 differs
  show ?thesis
    by (simp add: demo_session_eq)
qed

text \<open>
  C7 as stated has every second call at the same timestamp continue. Where the
  library's seek fails with an error other than end of file, which \<open>AVI_SeekVideo\<close>
  lets pass, the scan goes on from the read position: the second call finds the next
  video packet, of another timestamp, and restarts from it as the first call did.
\<close>

theorem seek_video_twice_counterexample:
  "fst (AVI_SeekVideo stuck_seek_lib unseekable_session 0) = AVERROR_EAGAIN stuck_seek_lib
   \<and> fst (AVI_SeekVideo stuck_seek_lib
            (snd (AVI_GetVideoFrame stuck_seek_lib unseekable_session 0)) 0)
       = AVERROR_EAGAIN stuck_seek_lib
   \<and> AVERROR_EAGAIN stuck_seek_lib \<noteq> 0"
  by (simp add: unseekable_session_def stuck_seek_lib_def fresh_file_def open_defs pcm_defs
      AVI_GetVideoFrame_def video_select_def AVI_SeekVideo_def video_decode_def
      AVI_DecodePacket_def INT64_MIN_def)

lemma video_decode_image:
  assumes "AVI_DecodePacket env (video_ctx s2) (pkt s2) (frame s2) = (r, ctx, f)"
    and "r < 0 \<or> width f \<noteq> xres s2 \<or> height f \<noteq> yres s2 \<or> format f \<noteq> pix_fmt s2"
  shows "dst_image (snd (video_decode env s2)) = dst_image s2"
  using assms by (auto simp: video_decode_def Let_def)

text \<open>
  On an active session whose destination picture is allocated, \<open>AVI_GetVideoFrame\<close>
  returns the pointer \<open>dst[0]\<close> of the session, which is not null, and keeps that
  pointer. When no packet was selected (the seek failed or the stream ended), when
  decoding fails, or when the decoded frame's size or format differs from the
  session's, the picture is left as it was.
\<close>

lemma get_video_frame_holds_last:
  assumes act: "active s" and buf: "dst0 s \<noteq> NULL"
    and sel: "video_select env s target = (valid, s2)"
    and dec: "AVI_DecodePacket env (video_ctx s2) (pkt s2) (frame s2) = (r, ctx, f)"
  shows "fst (AVI_GetVideoFrame env s target) \<noteq> NULL
       \<and> fst (AVI_GetVideoFrame env s target) = dst0 s
       \<and> dst0 (snd (AVI_GetVideoFrame env s target)) = dst0 s
       \<and> (\<not> valid \<or> r < 0 \<or> width f \<noteq> xres s \<or> height f \<noteq> yres s \<or> format f \<noteq> pix_fmt s
            \<longrightarrow> dst_image (snd (AVI_GetVideoFrame env s target)) = dst_image s)"
proof -
  have keep: "dst0 s2 = dst0 s" "dst_image s2 = dst_image s" "xres s2 = xres s"
    "yres s2 = yres s" "pix_fmt s2 = pix_fmt s"
    using video_select_keeps [of env s target] sel by simp_all
  have ptr: "fst (AVI_GetVideoFrame env s target) = dst0 s"
    "dst0 (snd (AVI_GetVideoFrame env s target)) = dst0 s"
    using act sel keep by (simp_all add: AVI_GetVideoFrame_def video_decode_keeps)
  have img: "dst_image (snd (AVI_GetVideoFrame env s target)) = dst_image s"
    if "\<not> valid \<or> r < 0 \<or> width f \<noteq> xres s \<or> height f \<noteq> yres s \<or> format f \<noteq> pix_fmt s"
  proof (cases valid)
    case False
    with act sel keep show ?thesis by (simp add: AVI_GetVideoFrame_def)
  next
    case True
    with that keep have "r < 0 \<or> width f \<noteq> xres s2 \<or> height f \<noteq> yres s2 \<or> format f \<noteq> pix_fmt s2"
      by simp
    from video_decode_image [OF dec this] act sel True keep show ?thesis
      by (simp add: AVI_GetVideoFrame_def)
  qed
  from ptr img buf show ?thesis by simp
qed

text \<open>
  C5 fails on the code. \<open>AVI_OpenVideo\<close> marks the session active before it allocates
  the pixel converter and the picture; when the converter cannot be allocated it
  returns with the session active and \<open>dst[0]\<close> still null. On that active session
  \<open>AVI_GetVideoFrame\<close> returns the null pointer.
\<close>

theorem null_frame_on_active_session:
  "active half_open_session \<and> dst0 half_open_session = NULL
   \<and> fst (AVI_GetVideoFrame broken_converter_lib half_open_session 0) = NULL"
  by (simp add: half_open_session_def broken_converter_lib_def empty_file_def open_defs pcm_defs
      AVI_GetVideoFrame_def video_select_def AVI_SeekVideo_def)

subsection \<open>A frame that does not fit the cache\<close>

lemma refill_pass_overflow_break:
  assumes "AVI_DecodePacket env (audio_ctx s) (pkt s) (frame s) = (r, ctx, f)" "\<not> r < 0"
    "cached_audio_len s + nb_samples f * bps > cached_audio_buf_len s"
    "cached_audio_len s \<noteq> 0"
  shows "refill_pass env bps s = Leave Break (s\<lparr>audio_ctx := ctx, frame := f, pkt := blank_packet\<rparr>)"
  using assms by (simp add: refill_pass_def Let_def)

lemma refill_pass_overflow_grow:
  assumes dec: "AVI_DecodePacket env (audio_ctx s) (pkt s) (frame s) = (r, ctx, f)" "\<not> r < 0"
    and over: "cached_audio_len s + nb_samples f * bps > cached_audio_buf_len s"
    and empty: "cached_audio_len s = 0"
  shows "\<exists>s'. (refill_pass env bps s = Leave Break s' \<or> refill_pass env bps s = Again s')
           \<and> cached_audio_alloc s' = nb_samples f * bps * 2
           \<and> cached_audio_len s' = nb_samples f * bps
           \<and> cached_audio s' = memcpy (cached_audio s) 0 (swr_convert env f) 0
                                  (nat (nb_samples f * bps))
           \<and> cached_audio_buf_len s' = cached_audio_buf_len s"
  using assms
  by (auto simp: refill_pass_def Let_def read_audio_packet_def split: option.splits)

text \<open>
  C9. In a pass of the refill loop whose decoded frame, of \<open>sz\<close> bytes, does not fit
  the cache's capacity: if the cache is not empty the loop is left by \<open>break\<close>, with
  the cache block, its size, and the cache's length and offset as they were (nothing is
  reallocated, what is cached is served); if the cache is empty and the capacity is not
  negative, the block is reallocated to twice the frame's size, which is beyond the
  recorded capacity, so that the frame fits, and the frame is appended: the cache then
  holds exactly the frame's \<open>sz\<close> converted bytes.
\<close>

theorem refill_overflow:
  assumes dec: "AVI_DecodePacket env (audio_ctx s) (pkt s) (frame s) = (r, ctx, f)" "\<not> r < 0"
    and size: "sz = nb_samples f * bps"
    and over: "cached_audio_len s + sz > cached_audio_buf_len s"
  shows "(cached_audio_len s \<noteq> 0 \<longrightarrow>
           (\<exists>s'. refill_pass env bps s = Leave Break s'
              \<and> cached_audio s' = cached_audio s
              \<and> cached_audio_alloc s' = cached_audio_alloc s
              \<and> cached_audio_len s' = cached_audio_len s
              \<and> cached_audio_off s' = cached_audio_off s
              \<and> have_audio_cache s' = have_audio_cache s))
       \<and> (cached_audio_len s = 0 \<and> 0 \<le> cached_audio_buf_len s \<longrightarrow>
           (\<exists>s'. (refill_pass env bps s = Leave Break s' \<or> refill_pass env bps s = Again s')
              \<and> cached_audio_alloc s' = 2 * sz
              \<and> cached_audio_buf_len s < cached_audio_alloc s'
              \<and> cached_audio_len s' = sz
              \<and> cached_audio_len s' \<le> cached_audio_alloc s'
              \<and> (\<forall>i < nat sz. cached_audio s' i = swr_convert env f i)))"
proof -
  have a: "\<exists>s'. refill_pass env bps s = Leave Break s'
              \<and> cached_audio s' = cached_audio s
              \<and> cached_audio_alloc s' = cached_audio_alloc s
              \<and> cached_audio_len s' = cached_audio_len s
              \<and> cached_audio_off s' = cached_audio_off s
              \<and> have_audio_cache s' = have_audio_cache s"
    if "cached_audio_len s \<noteq> 0"
    using refill_pass_overflow_break [OF dec over [unfolded size] that] by simp
  have b: "\<exists>s'. (refill_pass env bps s = Leave Break s' \<or> refill_pass env bps s = Again s')
              \<and> cached_audio_alloc s' = 2 * sz
              \<and> cached_audio_buf_len s < cached_audio_alloc s'
              \<and> cached_audio_len s' = sz
              \<and> cached_audio_len s' \<le> cached_audio_alloc s'
              \<and> (\<forall>i < nat sz. cached_audio s' i = swr_convert env f i)"
    if empty: "cached_audio_len s = 0" and cap: "0 \<le> cached_audio_buf_len s"
  proof -
    from refill_pass_overflow_grow [OF dec over [unfolded size] empty]
    obtain s' where s': "refill_pass env bps s = Leave Break s' \<or> refill_pass env bps s = Again s'"
      "cached_audio_alloc s' = sz * 2" "cached_audio_len s' = sz"
      "cached_audio s' = memcpy (cached_audio s) 0 (swr_convert env f) 0 (nat sz)"
      "cached_audio_buf_len s' = cached_audio_buf_len s"
      unfolding size by blast
    from over empty cap have pos: "0 < sz" by simp
    have bytes: "\<forall>i < nat sz. cached_audio s' i = swr_convert env f i"
      using s'(4) memcpy_inside [of _ "nat sz" "cached_audio s" 0 "swr_convert env f" 0]
      by simp
    from s' pos over empty bytes show ?thesis
      by (intro exI [of _ s']) simp
  qed
  from a b show ?thesis by blast
qed

theorem refill_overflow_witness:
  "(case refill_pass pcm_lib 4
           (cached_session\<lparr>cached_audio_buf_len := 8, pkt := mk_packet 1 2 [3, 3, 3, 3]\<rparr>) of
      Leave e s' \<Rightarrow> e = Break \<and> cached_audio_len s' = 8
    | Again s' \<Rightarrow> False)
   \<and> (case refill_pass pcm_lib 4
           (demo_session\<lparr>cached_audio_buf_len := 2, pkt := mk_packet 1 2 [3, 3, 3, 3]\<rparr>) of
      Leave e s' \<Rightarrow> cached_audio_alloc s' = 8 \<and> cached_audio_len s' = 4
    | Again s' \<Rightarrow> cached_audio_alloc s' = 8 \<and> cached_audio_len s' = 4)"
proof -
  let ?p = "mk_packet 1 2 [3, 3, 3, 3]"
  let ?s1 = "cached_session\<lparr>cached_audio_buf_len := 8, pkt := ?p\<rparr>"
  let ?s2 = "demo_session\<lparr>cached_audio_buf_len := 2, pkt := ?p\<rparr>"
  have dec1: "AVI_DecodePacket pcm_lib (audio_ctx ?s1) (pkt ?s1) (frame ?s1)
                = (0, (False, []), pcm_frame ?p)"
    and dec2: "AVI_DecodePacket pcm_lib (audio_ctx ?s2) (pkt ?s2) (frame ?s2)
                = (0, (False, []), pcm_frame ?p)"
    by (simp_all add: cached_session_def demo_session_eq AVI_DecodePacket_def pcm_lib_def
        pcm_send_def pcm_receive_def mk_packet_def)
  have ok: "\<not> (0::int) < 0" by simp
  have size: "(4::int) = nb_samples (pcm_frame ?p) * 4"
    by (simp add: pcm_frame_def mk_packet_def)
  have over1: "cached_audio_len ?s1 + 4 > cached_audio_buf_len ?s1"
    and over2: "cached_audio_len ?s2 + 4 > cached_audio_buf_len ?s2"
    by (simp_all add: cached_session_def demo_session_eq)
  have full: "cached_audio_len ?s1 \<noteq> 0"
    and empty: "cached_audio_len ?s2 = 0 \<and> 0 \<le> cached_audio_buf_len ?s2"
    by (simp_all add: cached_session_def demo_session_eq)
  from refill_overflow [OF dec1 ok size over1] full
  have one: "\<exists>s'. refill_pass pcm_lib 4 ?s1 = Leave Break s' \<and> cached_audio_len s' = 8"
    by (auto simp: cached_session_def)
  from refill_overflow [OF dec2 ok size over2] empty
  have two: "\<exists>s'. (refill_pass pcm_lib 4 ?s2 = Leave Break s' \<or> refill_pass pcm_lib 4 ?s2 = Again s')
               \<and> cached_audio_alloc s' = 8 \<and> cached_audio_len s' = 4"
    by auto
  from one two show ?thesis by auto
qed

subsection \<open>Opening a session\<close>

text \<open>
  C2, as the code has it. \<open>AVI_OpenVideo\<close> leaves the session inactive when the file
  name is null or when a step before the session is marked active fails: opening the
  container, probing the streams, setting up the video codec, allocating the two packets
  and the frame. When all of these, the pixel converter and the picture succeed, audio
  was asked for and the audio stream or codec cannot be set up, the session stays active
  with a negative audio stream index.
\<close>

theorem open_video_failures:
  "(filename = None \<longrightarrow> \<not> active (AVI_OpenVideo env s filename load_audio qt))
   \<and> (filename = Some name
        \<and> avformat_open_input env name = (ret, d)
        \<and> avformat_find_stream_info env d = (ret1, d1)
        \<and> AVI_OpenCodecContext env d1 AVMEDIA_TYPE_VIDEO = (idx, c)
        \<and> vc = store_ctx c (video_ctx s) \<longrightarrow>
        (ret < 0 \<or> ret1 < 0 \<or> idx < 0 \<or> \<not> av_packet_alloc env 0 \<or> \<not> av_packet_alloc env 1
           \<or> \<not> av_frame_alloc env \<longrightarrow>
           \<not> active (AVI_OpenVideo env s filename load_audio qt))
        \<and> (\<not> ret < 0 \<and> \<not> ret1 < 0 \<and> \<not> idx < 0 \<and> av_packet_alloc env 0 \<and> av_packet_alloc env 1
           \<and> av_frame_alloc env
           \<and> sws_getContext env (ctx_width env vc) (ctx_height env vc) (ctx_pix_fmt env vc)
           \<and> \<not> fst (av_image_alloc env (ctx_width env vc) (ctx_height env vc)) < 0
           \<and> load_audio
           \<and> fst (AVI_OpenCodecContext env d1 AVMEDIA_TYPE_AUDIO) < 0 \<longrightarrow>
           active (AVI_OpenVideo env s filename load_audio qt)
           \<and> audio_stream (AVI_OpenVideo env s filename load_audio qt) < 0))"
  by (auto simp: AVI_OpenVideo_def open_picture_def open_audio_def Let_def
      split: prod.splits)

theorem open_video_failures_witness:
  "\<not> active (AVI_OpenVideo pcm_lib demo_session None True False)
   \<and> \<not> active (AVI_OpenVideo missing_file_lib demo_session (Some ''demo.avi'') True False)
   \<and> active (AVI_OpenVideo video_only_lib zero_session (Some ''demo.avi'') True False)
   \<and> audio_stream (AVI_OpenVideo video_only_lib zero_session (Some ''demo.avi'') True False) < 0"
proof -
  note a = open_video_failures [where filename = None and env = pcm_lib and s = demo_session
      and load_audio = True and qt = False]
  note b = open_video_failures [where filename = "Some ''demo.avi''" and name = "''demo.avi''"
      and env = missing_file_lib and s = demo_session and load_audio = True and qt = False
      and ret = "- 2" and d = demo_file and ?ret1.0 = 0 and ?d1.0 = demo_file
      and idx = 0 and c = "Some (False, [])" and vc = "(False, [])"]
  note c = open_video_failures [where filename = "Some ''demo.avi''" and name = "''demo.avi''"
      and env = video_only_lib and s = zero_session and load_audio = True and qt = False
      and ret = 0 and d = demo_file and ?ret1.0 = 0 and ?d1.0 = demo_file
      and idx = 0 and c = "Some (False, [])" and vc = "(False, [])"]
  have a': "\<not> active (AVI_OpenVideo pcm_lib demo_session None True False)"
    using a by simp
  have b': "\<not> active (AVI_OpenVideo missing_file_lib demo_session (Some ''demo.avi'') True False)"
    using b by (simp add: missing_file_lib_def pcm_lib_def AVI_OpenCodecContext_def store_ctx_def)
  have c': "active (AVI_OpenVideo video_only_lib zero_session (Some ''demo.avi'') True False)
     \<and> audio_stream (AVI_OpenVideo video_only_lib zero_session (Some ''demo.avi'') True False) < 0"
    using c by (simp add: video_only_lib_def pcm_lib_def AVI_OpenCodecContext_def store_ctx_def)
  from a' b' c' show ?thesis by simp
qed

text \<open>
  C2 as stated asks for an inactive session after any failed step. Opening, with audio,
  a file that has no audio stream gives an active session.
\<close>

theorem open_audio_failure_counterexample:
  "fst (AVI_OpenCodecContext video_only_lib demo_file AVMEDIA_TYPE_AUDIO) < 0
   \<and> active (AVI_OpenVideo video_only_lib zero_session (Some ''demo.avi'') True False)"
  by (simp add: video_only_lib_def open_defs pcm_defs)

subsection \<open>What AVI\_GetAudioChunk returns\<close>








subsection \<open>The end-of-audio sentinel\<close>

lemma cache_lookup_eof:
  "cache_lookup s out ap offset len = Proceed s1 out1 ap1 len1 \<Longrightarrow>
     audio_eof_position s1 = audio_eof_position s"
  by (auto simp: cache_lookup_def AVI_GetAudioChunkFromCache_def Let_def split: if_splits prod.splits)

lemma cache_lookup_Served_state:
  "cache_lookup s out ap offset len = Served r out1 s1 \<Longrightarrow> s1 = s"
  by (auto simp: cache_lookup_def Let_def split: if_splits prod.splits)

lemma seek_audio_eof:
  "audio_eof_position (snd (AVI_SeekAudio env s ts)) = audio_eof_position s"
  by (simp add: AVI_SeekAudio_def Let_def split: prod.splits)

lemma refill_pass_eof:
  assumes "refill_pass env bps s = x" "x = Leave e s' \<or> x = Again s'"
  shows "audio_eof_position s' \<le> audio_eof_position s
         \<and> (audio_eof_position s' \<noteq> audio_eof_position s \<longrightarrow>
              audio_eof_position s' = cached_audio_off s' + cached_audio_len s'
              \<and> audio_eof_position s' < audio_eof_position s)"
  using assms
  by (auto simp: refill_pass_def Let_def read_audio_packet_def
      split: prod.splits if_splits option.splits)

lemma refill_eof:
  "refill k env bps s = Some (e, s') \<Longrightarrow> audio_eof_position s' \<le> audio_eof_position s"
proof (induction k arbitrary: s)
  case 0
  then show ?case by simp
next
  case (Suc k)
  show ?case
  proof (cases "refill_pass env bps s")
    case (Leave e1 s1)
    with Suc.prems have "s' = s1" by simp
    with refill_pass_eof [OF Leave, of e1 s1] show ?thesis by simp
  next
    case (Again s1)
    with Suc.prems have "refill k env bps s1 = Some (e, s')" by simp
    from Suc.IH [OF this] refill_pass_eof [OF Again, of _ s1] show ?thesis by simp
  qed
qed

lemma audio_chunk_eof:
  "AVI_GetAudioChunk n env s out ap offset len = Some (r, out', s') \<Longrightarrow>
     audio_eof_position s' \<le> audio_eof_position s"
proof (induction n arbitrary: s out ap len)
  case 0
  then show ?case by simp
next
  case (Suc n)
  show ?case
  proof (cases "cache_lookup s out ap offset len")
    case (Served r0 out1 s1)
    with Suc.prems cache_lookup_Served_state [OF Served] show ?thesis by simp
  next
    case (Proceed s1 out1 ap1 len1)
    note e1 = cache_lookup_eof [OF Proceed]
    let ?bps = "channels s1 * av_get_bytes_per_sample env (s_fmt s1)"
    let ?ts = "AVI_AudioOffsetToTimestamp env offset ?bps (rate s1)
                 (time_base (fmt_ctx s1) (audio_stream s1))"
    obtain ret s2 where seek: "AVI_SeekAudio env s1 ?ts = (ret, s2)"
      by (cases "AVI_SeekAudio env s1 ?ts") auto
    with seek_audio_eof [of env s1 ?ts] e1
    have e2: "audio_eof_position s2 = audio_eof_position s" by simp
    show ?thesis
    proof (cases "ret < 0")
      case True
      with Suc.prems Proceed seek have "s' = s2" by (simp add: Let_def)
      with e2 show ?thesis by simp
    next
      case False
      let ?s3 = "s2\<lparr>cached_audio_off :=
                      AVI_AudioTimestampToOffset env (dts (pkt s2)) ?bps (rate s2)
                        (time_base (fmt_ctx s2) (audio_stream s1)),
                    cached_audio_len := 0, have_audio_cache := True\<rparr>"
      from Suc.prems Proceed seek False
      obtain e s4 where fill: "refill n env ?bps ?s3 = Some (e, s4)"
        by (cases "refill n env ?bps ?s3") (auto simp: Let_def)
      from refill_eof [OF fill] e2
      have e4: "audio_eof_position s4 \<le> audio_eof_position s" by simp
      show ?thesis
      proof (cases "e = Return0 \<or> cached_audio_len s4 = 0")
        case True
        with Suc.prems Proceed seek False fill have "s' = s4"
          by (cases e) (auto simp: Let_def)
        with e4 show ?thesis by simp
      next
        case False
        then have e: "e = Break \<and> cached_audio_len s4 \<noteq> 0" by (cases e) auto
        with Suc.prems Proceed seek \<open>\<not> ret < 0\<close> fill
        have rec: "AVI_GetAudioChunk n env s4 out1 ap1 offset len1 = Some (r, out', s')"
          by (simp add: Let_def)
        from Suc.IH [OF rec] e4 show ?thesis by simp
      qed
    qed
  qed
qed

lemma contract_send:
  "draining_contract env D \<Longrightarrow> D c \<Longrightarrow> avcodec_send_packet env c p = (r, c1) \<Longrightarrow>
     r < 0 \<and> D c1"
  unfolding draining_contract_def by (metis fst_conv snd_conv)

lemma contract_blank:
  "draining_contract env D \<Longrightarrow> avcodec_send_packet env c blank_packet = (r, c1) \<Longrightarrow> D c1"
  unfolding draining_contract_def by (metis snd_conv)

lemma contract_receive:
  "draining_contract env D \<Longrightarrow> D c \<Longrightarrow> avcodec_receive_frame env c = (r, f, c1) \<Longrightarrow> D c1"
  unfolding draining_contract_def by (metis snd_conv)

lemma decode_drained:
  assumes "draining_contract env D" "D c"
  shows "fst (AVI_DecodePacket env c p f) < 0 \<and> D (fst (snd (AVI_DecodePacket env c p f)))"
proof -
  obtain r c1 where send: "avcodec_send_packet env c p = (r, c1)"
    by (cases "avcodec_send_packet env c p") auto
  from contract_send [OF assms send] send show ?thesis
    by (simp add: AVI_DecodePacket_def)
qed

lemma decode_blank:
  assumes "draining_contract env D"
  shows "D (fst (snd (AVI_DecodePacket env c blank_packet f)))"
proof -
  obtain r c1 where send: "avcodec_send_packet env c blank_packet = (r, c1)"
    by (cases "avcodec_send_packet env c blank_packet") auto
  note d1 = contract_blank [OF assms send]
  obtain r2 f2 c2 where recv: "avcodec_receive_frame env c1 = (r2, f2, c2)"
    by (cases "avcodec_receive_frame env c1") auto
  note d2 = contract_receive [OF assms d1 recv]
  from send recv d1 d2 show ?thesis
    by (simp add: AVI_DecodePacket_def)
qed

lemma refill_pass_ctx:
  "refill_pass env bps s = x \<Longrightarrow> x = Leave e t \<or> x = Again t \<Longrightarrow>
     audio_ctx t = fst (snd (AVI_DecodePacket env (audio_ctx s) (pkt s) (frame s)))"
  by (auto simp: refill_pass_def Let_def read_audio_packet_def
      split: prod.splits if_splits option.splits)

lemma refill_pass_drained:
  assumes "draining_contract env D" "D (audio_ctx s)"
  shows "\<exists>t. refill_pass env bps s = Leave Return0 t
           \<and> audio_eof_position t = audio_eof_position s \<and> D (audio_ctx t)"
  using decode_drained [OF assms, of "pkt s" "frame s"]
  by (auto simp: refill_pass_def split: prod.splits)

lemma refill_pass_pin_blank:
  "AVERROR_EOF env < 0 \<Longrightarrow> refill_pass env bps s = x \<Longrightarrow> x = Leave e t \<or> x = Again t \<Longrightarrow>
     audio_eof_position t \<noteq> audio_eof_position s \<Longrightarrow> pkt t = blank_packet"
  by (auto simp: refill_pass_def Let_def read_audio_packet_def
      split: prod.splits if_splits option.splits)

lemma refill_about_to_drain:
  assumes c: "draining_contract env D"
  shows "refill k env bps s = Some (e, s') \<Longrightarrow> D (audio_ctx s) \<or> pkt s = blank_packet \<Longrightarrow>
           D (audio_ctx s')"
proof (induction k arbitrary: s)
  case 0
  then show ?case by simp
next
  case (Suc k)
  have step: "D (audio_ctx t)" if "refill_pass env bps s = Leave e1 t \<or> refill_pass env bps s = Again t"
    for e1 t
  proof -
    from that refill_pass_ctx [of env bps s _ e1 t]
    have ctx: "audio_ctx t = fst (snd (AVI_DecodePacket env (audio_ctx s) (pkt s) (frame s)))"
      by blast
    from Suc.prems(2) show ?thesis
    proof
      assume "D (audio_ctx s)"
      from decode_drained [OF c this] ctx show ?thesis by simp
    next
      assume "pkt s = blank_packet"
      with decode_blank [OF c, of "audio_ctx s" "frame s"] ctx show ?thesis by simp
    qed
  qed
  show ?case
  proof (cases "refill_pass env bps s")
    case (Leave e1 t)
    with Suc.prems(1) step [of e1 t] show ?thesis by simp
  next
    case (Again t)
    with Suc.prems(1) have "refill k env bps t = Some (e, s')" by simp
    from Suc.IH [OF this] step [of _ t] Again show ?thesis by simp
  qed
qed

lemma refill_pin_drains:
  assumes c: "draining_contract env D"
  shows "refill k env bps s = Some (e, s') \<Longrightarrow>
           audio_eof_position s' \<noteq> audio_eof_position s \<Longrightarrow> D (audio_ctx s')"
proof (induction k arbitrary: s)
  case 0
  then show ?case by simp
next
  case (Suc k)
  from c have neg: "AVERROR_EOF env < 0" by (simp add: draining_contract_def)
  show ?case
  proof (cases "refill_pass env bps s")
    case (Leave e1 t)
    with Suc.prems(1) have t: "s' = t" by simp
    from Leave Suc.prems(2) t show ?thesis
      by (auto simp: refill_pass_def Let_def read_audio_packet_def
          split: prod.splits if_splits option.splits)
  next
    case (Again t)
    with Suc.prems(1) have rest: "refill k env bps t = Some (e, s')" by simp
    show ?thesis
    proof (cases "audio_eof_position t = audio_eof_position s")
      case True
      with Suc.IH [OF rest] Suc.prems(2) show ?thesis by simp
    next
      case False
      with refill_pass_pin_blank [OF neg Again, of _ t] have "pkt t = blank_packet" by simp
      with refill_about_to_drain [OF c rest] show ?thesis by simp
    qed
  qed
qed

lemma cache_lookup_ctx:
  "cache_lookup s out ap offset len = Proceed s1 out1 ap1 len1 \<Longrightarrow> audio_ctx s1 = audio_ctx s"
  by (auto simp: cache_lookup_def Let_def split: if_splits prod.splits)

lemma seek_audio_ctx:
  "audio_ctx (snd (AVI_SeekAudio env s ts)) = audio_ctx s"
  by (simp add: AVI_SeekAudio_def Let_def split: prod.splits)

lemma audio_chunk_drained:
  assumes c: "draining_contract env D" and d: "D (audio_ctx s)"
    and run: "AVI_GetAudioChunk n env s out ap offset len = Some (r, out', s')"
  shows "audio_eof_position s' = audio_eof_position s \<and> D (audio_ctx s')"
proof (cases n)
  case 0
  with run show ?thesis by simp
next
  case (Suc m)
  show ?thesis
  proof (cases "cache_lookup s out ap offset len")
    case (Served r0 out1 s1)
    with run Suc cache_lookup_Served_state [OF Served] d show ?thesis by simp
  next
    case (Proceed s1 out1 ap1 len1)
    let ?bps = "channels s1 * av_get_bytes_per_sample env (s_fmt s1)"
    let ?ts = "AVI_AudioOffsetToTimestamp env offset ?bps (rate s1)
                 (time_base (fmt_ctx s1) (audio_stream s1))"
    obtain ret s2 where seek: "AVI_SeekAudio env s1 ?ts = (ret, s2)"
      by (cases "AVI_SeekAudio env s1 ?ts") auto
    from seek seek_audio_eof [of env s1 ?ts] seek_audio_ctx [of env s1 ?ts]
      cache_lookup_eof [OF Proceed] cache_lookup_ctx [OF Proceed] d
    have s2: "audio_eof_position s2 = audio_eof_position s" "D (audio_ctx s2)" by simp_all
    show ?thesis
    proof (cases "ret < 0")
      case True
      with run Suc Proceed seek have "s' = s2" by (simp add: Let_def)
      with s2 show ?thesis by simp
    next
      case False
      let ?s3 = "s2\<lparr>cached_audio_off :=
                      AVI_AudioTimestampToOffset env (dts (pkt s2)) ?bps (rate s2)
                        (time_base (fmt_ctx s2) (audio_stream s1)),
                    cached_audio_len := 0, have_audio_cache := True\<rparr>"
      from run Suc Proceed seek False
      obtain e s4 where fill: "refill m env ?bps ?s3 = Some (e, s4)"
        by (cases "refill m env ?bps ?s3") (auto simp: Let_def)
      then obtain k where m: "m = Suc k" by (cases m) auto
      from s2 have d3: "D (audio_ctx ?s3)" by simp
      from refill_pass_drained [OF c d3, of ?bps] obtain t where
        t: "refill_pass env ?bps ?s3 = Leave Return0 t"
        "audio_eof_position t = audio_eof_position ?s3" "D (audio_ctx t)"
        by blast
      with fill m have e: "e = Return0" "s4 = t" by simp_all
      with run Suc Proceed seek False fill have "s' = t" by (simp add: Let_def)
      with t s2 show ?thesis by simp
    qed
  qed
qed

lemma audio_chunk_pin_drains:
  assumes c: "draining_contract env D"
  shows "AVI_GetAudioChunk n env s out ap offset len = Some (r, out', s') \<Longrightarrow>
           audio_eof_position s' \<noteq> audio_eof_position s \<Longrightarrow> D (audio_ctx s')"
proof (induction n arbitrary: s out ap len)
  case 0
  then show ?case by simp
next
  case (Suc n)
  show ?case
  proof (cases "cache_lookup s out ap offset len")
    case (Served r0 out1 s1)
    with Suc.prems cache_lookup_Served_state [OF Served] show ?thesis by simp
  next
    case (Proceed s1 out1 ap1 len1)
    let ?bps = "channels s1 * av_get_bytes_per_sample env (s_fmt s1)"
    let ?ts = "AVI_AudioOffsetToTimestamp env offset ?bps (rate s1)
                 (time_base (fmt_ctx s1) (audio_stream s1))"
    obtain ret s2 where seek: "AVI_SeekAudio env s1 ?ts = (ret, s2)"
      by (cases "AVI_SeekAudio env s1 ?ts") auto
    from seek seek_audio_eof [of env s1 ?ts] cache_lookup_eof [OF Proceed]
    have s2: "audio_eof_position s2 = audio_eof_position s" by simp
    show ?thesis
    proof (cases "ret < 0")
      case True
      with Suc.prems Proceed seek have "s' = s2" by (simp add: Let_def)
      with s2 Suc.prems(2) show ?thesis by simp
    next
      case False
      let ?s3 = "s2\<lparr>cached_audio_off :=
                      AVI_AudioTimestampToOffset env (dts (pkt s2)) ?bps (rate s2)
                        (time_base (fmt_ctx s2) (audio_stream s1)),
                    cached_audio_len := 0, have_audio_cache := True\<rparr>"
      from Suc.prems(1) Proceed seek False
      obtain e s4 where fill: "refill n env ?bps ?s3 = Some (e, s4)"
        by (cases "refill n env ?bps ?s3") (auto simp: Let_def)
      have pinned: "D (audio_ctx s4)" if "audio_eof_position s4 \<noteq> audio_eof_position s"
        using refill_pin_drains [OF c fill] that s2 by simp
      show ?thesis
      proof (cases "e = Return0 \<or> cached_audio_len s4 = 0")
        case True
        with Suc.prems(1) Proceed seek False fill have "s' = s4"
          by (cases e) (auto simp: Let_def)
        with pinned Suc.prems(2) show ?thesis by simp
      next
        case False
        then have e: "e = Break \<and> cached_audio_len s4 \<noteq> 0" by (cases e) auto
        with Suc.prems(1) Proceed seek \<open>\<not> ret < 0\<close> fill
        have rec: "AVI_GetAudioChunk n env s4 out1 ap1 offset len1 = Some (r, out', s')"
          by (simp add: Let_def)
        show ?thesis
        proof (cases "audio_eof_position s4 = audio_eof_position s")
          case True
          with Suc.IH [OF rec] Suc.prems(2) show ?thesis by simp
        next
          case False
          from audio_chunk_drained [OF c pinned [OF False] rec] show ?thesis by simp
        qed
      qed
    qed
  qed
qed

lemma seek_video_audio:
  "audio_ctx (snd (AVI_SeekVideo env s ts)) = audio_ctx s"
  "audio_eof_position (snd (AVI_SeekVideo env s ts)) = audio_eof_position s"
  by (simp_all add: AVI_SeekVideo_def Let_def split: prod.splits option.splits)

lemma video_select_audio:
  "audio_ctx (snd (video_select env s ts)) = audio_ctx s"
  "audio_eof_position (snd (video_select env s ts)) = audio_eof_position s"
  using seek_video_audio [of env s ts]
  by (auto simp: video_select_def Let_def split: prod.splits)

lemma video_decode_audio:
  "audio_ctx (snd (video_decode env s)) = audio_ctx s"
  "audio_eof_position (snd (video_decode env s)) = audio_eof_position s"
  by (simp_all add: video_decode_def Let_def split: prod.splits)

lemma get_video_frame_audio:
  "audio_ctx (snd (AVI_GetVideoFrame env s target)) = audio_ctx s"
  "audio_eof_position (snd (AVI_GetVideoFrame env s target)) = audio_eof_position s"
  using video_select_audio [of env s target]
  by (auto simp: AVI_GetVideoFrame_def video_decode_audio split: prod.splits)

lemma play_drained:
  assumes c: "draining_contract env D"
  shows "D (audio_ctx s) \<Longrightarrow> play n env s out rs = Some s' \<Longrightarrow>
           audio_eof_position s' = audio_eof_position s \<and> D (audio_ctx s')"
proof (induction rs arbitrary: s out)
  case Nil
  then show ?case by simp
next
  case (Cons q rs)
  show ?case
  proof (cases q)
    case (AudioChunk offset len)
    with Cons.prems(2) obtain r out1 s1 where
      one: "AVI_GetAudioChunk n env s out 0 offset len = Some (r, out1, s1)"
      and rest: "play n env s1 out1 rs = Some s'"
      by (auto split: option.splits)
    from audio_chunk_drained [OF c Cons.prems(1) one] Cons.IH [OF _ rest] show ?thesis by simp
  next
    case (VideoFrame target)
    with Cons.prems(2)
    have rest: "play n env (snd (AVI_GetVideoFrame env s target)) out rs = Some s'" by simp
    from Cons.IH [OF _ rest] get_video_frame_audio [of env s target] Cons.prems(1)
    show ?thesis by simp
  qed
qed

text \<open>
  C8. With a library that keeps the draining contract: a call of
  \<open>AVI_GetAudioChunk\<close> that changes the sentinel, which it does by pinning it after a
  failed read, lowers it and returns with the audio decoder draining, because the pass
  after the pin hands the decoder the blank packet; and from a session whose audio
  decoder is draining, every sequence of audio and video requests that returns leaves
  the sentinel at its value and the decoder draining. So once the sentinel is pinned no
  later call assigns it again, and it never decreases.
\<close>

theorem eof_sentinel_pinned:
  assumes "draining_contract env D"
  shows "(AVI_GetAudioChunk n env s out audiodata offset len = Some (r, out', s')
            \<and> audio_eof_position s' \<noteq> audio_eof_position s \<longrightarrow>
          audio_eof_position s' < audio_eof_position s \<and> D (audio_ctx s'))
       \<and> (D (audio_ctx s') \<and> play m env s' out' rs = Some s'' \<longrightarrow>
          audio_eof_position s'' = audio_eof_position s' \<and> D (audio_ctx s''))"
  using audio_chunk_pin_drains [OF assms, of n s out audiodata offset len r out' s']
    audio_chunk_eof [of n env s out audiodata offset len r out' s']
    play_drained [OF assms, of s' m out' rs s'']
  by linarith

lemma pcm_contract: "draining_contract pcm_lib fst"
  by (auto simp: draining_contract_def pcm_lib_def pcm_send_def pcm_receive_def blank_packet_def
      split: list.splits)

theorem eof_sentinel_pinned_witness:
  "draining_contract pcm_lib fst
   \<and> audio_eof_position drained_session = 20
   \<and> audio_eof_position drained_session < audio_eof_position demo_session
   \<and> (\<exists>s''. play (Suc (Suc (Suc 0))) pcm_lib drained_session silence
               [AudioChunk 0 4, VideoFrame 0, AudioChunk 16 4] = Some s''
            \<and> audio_eof_position s'' = 20)"
proof -
  have "\<exists>r out'. AVI_GetAudioChunk (Suc (Suc (Suc 0))) pcm_lib demo_session silence 0 100 4
          = Some (r, out', drained_session)"
    by (simp add: drained_session_def demo_session_eq pcm_defs chunk_eval)
  then obtain r out' where
    first: "AVI_GetAudioChunk (Suc (Suc (Suc 0))) pcm_lib demo_session silence 0 100 4
              = Some (r, out', drained_session)"
    by blast
  have pin: "audio_eof_position drained_session = 20"
    by (simp add: drained_session_def demo_session_eq pcm_defs chunk_eval)
  have before: "audio_eof_position demo_session = INT_MAX"
    by (simp add: demo_session_eq)
  have "\<exists>s''. play (Suc (Suc (Suc 0))) pcm_lib drained_session out'
               [AudioChunk 0 4, VideoFrame 0, AudioChunk 16 4] = Some s''"
    by (simp add: drained_session_def demo_session_eq pcm_defs chunk_eval
        AVI_GetVideoFrame_def video_select_def AVI_SeekVideo_def video_decode_def INT64_MIN_def)
  then obtain s'' where
    later: "play (Suc (Suc (Suc 0))) pcm_lib drained_session out'
              [AudioChunk 0 4, VideoFrame 0, AudioChunk 16 4] = Some s''"
    by blast
  have same: "out' = silence"
    using first by (simp add: demo_session_eq pcm_defs chunk_eval)
  from eof_sentinel_pinned [OF pcm_contract,
      of "Suc (Suc (Suc 0))" demo_session silence 0 100 4 r out' drained_session
         "Suc (Suc (Suc 0))" "[AudioChunk 0 4, VideoFrame 0, AudioChunk 16 4]" s'']
    first pin before later same pcm_contract
  show ?thesis by (auto simp: INT_MAX_def)
qed

subsection \<open>The call of AVI\_GetAudioChunk to itself\<close>

lemma stuck_round:
  "AVI_GetAudioChunk (Suc (Suc (Suc (Suc m)))) long_lib (stuck_session c) out 0 0 0
     = AVI_GetAudioChunk (Suc (Suc (Suc m))) long_lib (stuck_session (refilled c)) out 0 0 0"
  apply (subst AVI_GetAudioChunk.simps(2))
  apply (simp add: stuck_session_def refilled_def long_eval del: AVI_GetAudioChunk.simps)
  done

lemma stuck_short:
  "AVI_GetAudioChunk (Suc 0) long_lib (stuck_session c) out 0 0 0 = None"
  "AVI_GetAudioChunk (Suc (Suc 0)) long_lib (stuck_session c) out 0 0 0 = None"
  "AVI_GetAudioChunk (Suc (Suc (Suc 0))) long_lib (stuck_session c) out 0 0 0 = None"
  by (simp_all add: stuck_session_def long_eval)

lemma stuck_forever:
  "AVI_GetAudioChunk n long_lib (stuck_session c) out 0 0 0 = None"
proof (induction n arbitrary: c)
  case 0
  show ?case by simp
next
  case (Suc n)
  consider "n = 0" | "n = Suc 0" | "n = Suc (Suc 0)" | m where "n = Suc (Suc (Suc m))"
    by (metis not0_implies_Suc)
  then show ?case
  proof cases
    case 1
    then show ?thesis using stuck_short(1) by (simp del: AVI_GetAudioChunk.simps)
  next
    case 2
    then show ?thesis using stuck_short(2) by (simp del: AVI_GetAudioChunk.simps)
  next
    case 3
    then show ?thesis using stuck_short(3) by (simp del: AVI_GetAudioChunk.simps)
  next
    case 4
    with stuck_round [of m c out] Suc.IH [of "refilled c"] show ?thesis
      by (simp del: AVI_GetAudioChunk.simps)
  qed
qed

lemma first_round:
  "AVI_GetAudioChunk (Suc (Suc (Suc (Suc m)))) long_lib long_session out 0 0 0
     = AVI_GetAudioChunk (Suc (Suc (Suc m))) long_lib (stuck_session (refilled (\<lambda>i. 0))) out 0 0 0"
  apply (subst AVI_GetAudioChunk.simps(2))
  apply (simp add: stuck_session_def refilled_def long_eval del: AVI_GetAudioChunk.simps)
  done

lemma first_short:
  "AVI_GetAudioChunk (Suc 0) long_lib long_session out 0 0 0 = None"
  "AVI_GetAudioChunk (Suc (Suc 0)) long_lib long_session out 0 0 0 = None"
  "AVI_GetAudioChunk (Suc (Suc (Suc 0))) long_lib long_session out 0 0 0 = None"
  by (simp_all add: long_eval)

text \<open>
  C4 fails on the code. On a session opened on a file with more audio than the cache
  holds, a request of length 0 at offset 0 never returns: the look into the cache finds
  0 bytes missing of 0 requested, which invalidates the cache; the refill decodes 8192
  bytes and stops at the capacity; the function calls itself with the same arguments,
  and the session is the same again. No bound on the depth lets the call return.
\<close>

theorem zero_length_request_never_returns:
  "AVI_GetAudioChunk n long_lib long_session silence 0 0 0 = None"
proof -
  consider "n = 0" | "n = Suc 0" | "n = Suc (Suc 0)" | "n = Suc (Suc (Suc 0))"
    | m where "n = Suc (Suc (Suc (Suc m)))"
    by (metis not0_implies_Suc)
  then show ?thesis
  proof cases
    case 1
    then show ?thesis by simp
  next
    case 2
    with first_short(1) [of silence] show ?thesis by (simp del: AVI_GetAudioChunk.simps)
  next
    case 3
    with first_short(2) [of silence] show ?thesis by (simp del: AVI_GetAudioChunk.simps)
  next
    case 4
    with first_short(3) [of silence] show ?thesis by (simp del: AVI_GetAudioChunk.simps)
  next
    case 5
    with first_round [of m silence] stuck_forever show ?thesis
      by (simp del: AVI_GetAudioChunk.simps)
  qed
qed

end
